theory Spec2Isabelle
  imports Main
begin

section \<open>The platform objects the handlers use\<close>

text \<open>
  The repository holds three variants of one request handler: \<open>src/serve.ts\<close> (resolve a
  video URL, then relay the media), \<open>src/unnamed/part_000\<close> (answer with the resolved URL as
  text) and \<open>src/unnamed/part_001\<close> (resolve the metadata, branch on the content type, then
  relay). Each is an \<open>async\<close> function from a \<open>Request\<close> to a \<open>Response\<close>. Its effects are the
  calls of the resolver (\<open>getVideoInfo\<close>, \<open>getVideoUrl\<close>, imported from \<open>douyin.ts\<close>, which is not
  among the sources) and of \<open>fetch\<close>; the model returns the response together with the list
  of these calls, in order. \<open>console.error\<close> writes to the log only and is left out.
\<close>

subsection \<open>Errors\<close>

text \<open>A thrown value. A promise that rejects is \<open>Inl\<close> of the error.\<close>

datatype error = Error string | TypeError string | RangeError string

subsection \<open>Headers\<close>

text \<open>
  A \<open>Headers\<close> object: header names are case-insensitive, \<open>set\<close>, \<open>get\<close> and \<open>has\<close> lower-case
  the name they are given. The values the handlers store are literals without surrounding
  white space or values read from another \<open>Headers\<close> object, which \<open>set\<close> stores unchanged.
\<close>

type_synonym headers = "string \<rightharpoonup> string"

definition ascii_lower :: "char \<Rightarrow> char" where
  "ascii_lower c =
     (case map_of (zip ''ABCDEFGHIJKLMNOPQRSTUVWXYZ'' ''abcdefghijklmnopqrstuvwxyz'') c of
        Some l \<Rightarrow> l
      | None \<Rightarrow> c)"

definition byte_lowercase :: "string \<Rightarrow> string" where
  "byte_lowercase name = map ascii_lower name"

definition new_Headers :: headers where
  "new_Headers = Map.empty"

definition Headers_set :: "headers \<Rightarrow> string \<Rightarrow> string \<Rightarrow> headers" where
  "Headers_set h name v = h(byte_lowercase name \<mapsto> v)"

definition Headers_get :: "headers \<Rightarrow> string \<Rightarrow> string option" where
  "Headers_get h name = h (byte_lowercase name)"

definition Headers_has :: "headers \<Rightarrow> string \<Rightarrow> bool" where
  "Headers_has h name = (h (byte_lowercase name) \<noteq> None)"

subsection \<open>Request, Response\<close>

text \<open>
  A body is a string (sent as its UTF-8 bytes; \<open>string\<close> is a list of bytes here) or a
  \<open>ReadableStream\<close>, named by the bytes it yields. \<open>null\<close> is \<open>None\<close>.
\<close>

datatype body = Text string | ReadableStream string

record response =
  status :: nat
  statusText :: string
  headers :: headers
  body :: "body option"

text \<open>\<open>Response.ok\<close>: the status is in the range 200 to 299.\<close>

definition ok :: "response \<Rightarrow> bool" where
  "ok r = (200 \<le> status r \<and> status r \<le> 299)"

text \<open>
  The request as the handlers read it: \<open>req.method\<close> (the field \<open>req_method\<close>, as
  \<open>method\<close> is a keyword of Isabelle), the query parameters of
  \<open>new URL(req.url).searchParams\<close> (a list of name-value pairs, in order) and \<open>req.headers\<close>.
\<close>

record request =
  req_method :: string
  searchParams :: "(string \<times> string) list"
  req_headers :: headers

text \<open>\<open>URLSearchParams.get\<close> gives the value of the first pair with the name, or \<open>null\<close>.\<close>

definition searchParams_get :: "(string \<times> string) list \<Rightarrow> string \<Rightarrow> string option" where
  "searchParams_get ps name = map_of ps name"

definition searchParams_has :: "(string \<times> string) list \<Rightarrow> string \<Rightarrow> bool" where
  "searchParams_has ps name = (map_of ps name \<noteq> None)"

text \<open>
  \<open>new Response(body, {status, headers})\<close>, as the Fetch standard initialises a response:
  a status outside 200 to 599 is a \<open>RangeError\<close>; a body with a null-body status is a
  \<open>TypeError\<close>; the headers are copied; a string body brings the content type
  \<open>text/plain;charset=UTF-8\<close> when the headers name none (a stream brings no type).
  A call that gives no status has status 200.
\<close>

definition null_body_status :: "nat \<Rightarrow> bool" where
  "null_body_status s = (s = 101 \<or> s = 103 \<or> s = 204 \<or> s = 205 \<or> s = 304)"

definition with_body_type :: "body option \<Rightarrow> headers \<Rightarrow> headers" where
  "with_body_type b h =
     (case b of
        Some (Text t) \<Rightarrow>
          if Headers_has h ''Content-Type'' then h
          else Headers_set h ''Content-Type'' ''text/plain;charset=UTF-8''
      | Some (ReadableStream bs) \<Rightarrow> h
      | None \<Rightarrow> h)"

definition new_Response :: "body option \<Rightarrow> nat \<Rightarrow> headers \<Rightarrow> error + response" where
  "new_Response b s h =
     (if s < 200 \<or> 599 < s then Inl (RangeError ''status'')
      else if b \<noteq> None \<and> null_body_status s then Inl (TypeError ''null body status'')
      else Inr \<lparr>status = s, statusText = '''', headers = with_body_type b h, body = b\<rparr>)"

subsection \<open>The resolver and the network\<close>

text \<open>
  The record \<open>getVideoInfo\<close> resolves to. Its declaration is in \<open>douyin.ts\<close>; the handlers
  read the two fields \<open>type\<close> and \<open>video_url\<close> (a string or \<open>null\<close>) and hand the whole record
  to \<open>JSON.stringify\<close>.
\<close>

record video_info =
  type :: string
  video_url :: "string option"

text \<open>
  What a handler runs against: the two resolver functions, \<open>fetch\<close> (from the URL and the
  request headers to a response or a network error) and \<open>JSON.stringify\<close> on the resolver's
  record. Each is called at most once in one run of a handler, so a function is enough.
\<close>

record world =
  getVideoInfo :: "string \<Rightarrow> error + video_info"
  getVideoUrl :: "string \<Rightarrow> error + string"
  fetch :: "string \<Rightarrow> headers \<Rightarrow> error + response"
  JSON_stringify :: "video_info \<Rightarrow> string"

datatype event = GetVideoInfo string | GetVideoUrl string | Fetch string headers

text \<open>
  The state one run threads: the \<open>corsHeaders\<close> object, which the handlers mutate in place,
  and the calls made so far.
\<close>

record state =
  corsHeaders :: headers
  calls :: "event list"

definition call :: "event \<Rightarrow> state \<Rightarrow> state" where
  "call ev s = s\<lparr>calls := calls s @ [ev]\<rparr>"

definition corsHeaders_set :: "string \<Rightarrow> string \<Rightarrow> state \<Rightarrow> state" where
  "corsHeaders_set name v s = s\<lparr>corsHeaders := Headers_set (corsHeaders s) name v\<rparr>"

text \<open>
  A string or \<open>null\<close> in a condition: \<open>null\<close> and the empty string count as false.
  \<open>v || d\<close> is \<open>v\<close> when \<open>v\<close> counts as true, and \<open>d\<close> otherwise.
\<close>

definition truthy :: "string option \<Rightarrow> bool" where
  "truthy v = (case v of None \<Rightarrow> False | Some s \<Rightarrow> s \<noteq> '''')"

definition or_else :: "string option \<Rightarrow> string \<Rightarrow> string" where
  "or_else v d = (case v of None \<Rightarrow> d | Some s \<Rightarrow> if s = '''' then d else s)"

text \<open>\<open>String(n)\<close> for a status code, as template literals render it.\<close>

fun decimal :: "nat \<Rightarrow> string" where
  "decimal n =
     (if n < 10 then [''0123456789'' ! n]
      else decimal (n div 10) @ [''0123456789'' ! (n mod 10)])"

section \<open>src/serve.ts\<close>

definition createCorsHeaders :: headers where
  "createCorsHeaders =
     (let h = new_Headers;
          h = Headers_set h ''Access-Control-Allow-Origin'' ''*'';
          h = Headers_set h ''Access-Control-Allow-Methods'' ''GET, OPTIONS'';
          h = Headers_set h ''Access-Control-Allow-Headers'' ''Content-Type, Range'';
          h = Headers_set h ''Access-Control-Expose-Headers'' ''Content-Length, Content-Range''
      in h)"

text \<open>Lines 58 to 63: the headers of the upstream request.\<close>

definition videoRequestHeaders :: "request \<Rightarrow> headers" where
  "videoRequestHeaders req =
     (let h = new_Headers;
          h = Headers_set h ''Referer'' ''https://www.douyin.com/'';
          h = Headers_set h ''User-Agent''
                ''Mozilla/5.0 (Windows NT 10.0; Win64; x64) AppleWebKit/537.36 (KHTML, like Gecko) Chrome/107.0.0.0 Safari/537.36''
      in case Headers_get (req_headers req) ''range'' of
           Some r \<Rightarrow> Headers_set h ''Range'' r
         | None \<Rightarrow> h)"

text \<open>Lines 73 to 79: the headers of the relayed response.\<close>

definition responseHeaders :: "response \<Rightarrow> headers" where
  "responseHeaders videoResponse =
     (let h = createCorsHeaders;
          h = Headers_set h ''Content-Type''
                (or_else (Headers_get (headers videoResponse) ''Content-Type'') ''video/mp4'');
          h = Headers_set h ''Content-Length''
                (or_else (Headers_get (headers videoResponse) ''Content-Length'') ''0'');
          h = Headers_set h ''Accept-Ranges'' ''bytes''
      in case Headers_get (headers videoResponse) ''content-range'' of
           Some r \<Rightarrow> Headers_set h ''Content-Range'' r
         | None \<Rightarrow> h)"

text \<open>Lines 40 to 43: the body of the first \<open>try\<close>.\<close>

definition serve_try_data :: "world \<Rightarrow> string \<Rightarrow> state \<Rightarrow> (error + response) \<times> state" where
  "serve_try_data w inputUrl s =
     (let s = call (GetVideoInfo inputUrl) s in
      case getVideoInfo w inputUrl of
        Inl e \<Rightarrow> (Inl e, s)
      | Inr videoInfo \<Rightarrow>
          (let s = corsHeaders_set ''Content-Type'' ''application/json; charset=utf-8'' s
           in (new_Response (Some (Text (JSON_stringify w videoInfo))) 200 (corsHeaders s), s)))"

text \<open>Lines 52 to 86: the body of the second \<open>try\<close>.\<close>

definition serve_try_proxy ::
  "world \<Rightarrow> request \<Rightarrow> string \<Rightarrow> state \<Rightarrow> (error + response) \<times> state" where
  "serve_try_proxy w req inputUrl s =
     (let s = call (GetVideoUrl inputUrl) s in
      case getVideoUrl w inputUrl of
        Inl e \<Rightarrow> (Inl e, s)
      | Inr protectedVideoUrl \<Rightarrow>
          if protectedVideoUrl = '''' then (Inl (Error ''Could not resolve video URL.''), s)
          else
            (let s = call (Fetch protectedVideoUrl (videoRequestHeaders req)) s in
             case fetch w protectedVideoUrl (videoRequestHeaders req) of
               Inl e \<Rightarrow> (Inl e, s)
             | Inr videoResponse \<Rightarrow>
                 if \<not> ok videoResponse \<or> body videoResponse = None
                 then (Inl (Error (''Upstream server error: '' @ decimal (status videoResponse)
                              @ '' '' @ statusText videoResponse)), s)
                 else (new_Response (body videoResponse) (status videoResponse)
                         (responseHeaders videoResponse), s)))"

definition serve_handler :: "world \<Rightarrow> request \<Rightarrow> (error + response) \<times> event list" where
  "serve_handler w req =
     (let s = \<lparr>corsHeaders = createCorsHeaders, calls = []\<rparr> in
      if req_method req = ''OPTIONS'' then (new_Response None 204 (corsHeaders s), calls s)
      else
        (let missing =
               (let s = corsHeaders_set ''Content-Type'' ''text/plain; charset=utf-8'' s
                in (new_Response (Some (Text ''Missing 'url' parameter.'')) 400 (corsHeaders s),
                    calls s))
         in case searchParams_get (searchParams req) ''url'' of
              None \<Rightarrow> missing
            | Some inputUrl \<Rightarrow>
                if inputUrl = '''' then missing
                else if searchParams_has (searchParams req) ''data'' then
                  (case serve_try_data w inputUrl s of
                     (Inr r, s) \<Rightarrow> (Inr r, calls s)
                   | (Inl e, s) \<Rightarrow>
                       (new_Response (Some (Text ''Error fetching video info.'')) 500
                          (corsHeaders s), calls s))
                else
                  (case serve_try_proxy w req inputUrl s of
                     (Inr r, s) \<Rightarrow> (Inr r, calls s)
                   | (Inl e, s) \<Rightarrow>
                       (new_Response
                          (Some (Text ''An internal server error occurred while proxying video.''))
                          500 (corsHeaders s), calls s))))"

section \<open>src/unnamed/part\_000\<close>

definition part_000_createCorsHeaders :: headers where
  "part_000_createCorsHeaders =
     (let h = new_Headers;
          h = Headers_set h ''Access-Control-Allow-Origin'' ''*'';
          h = Headers_set h ''Access-Control-Allow-Methods'' ''GET, OPTIONS'';
          h = Headers_set h ''Access-Control-Allow-Headers'' ''Content-Type''
      in h)"

text \<open>Lines 36 to 44: the body of the \<open>try\<close>.\<close>

definition part_000_try ::
  "world \<Rightarrow> request \<Rightarrow> string \<Rightarrow> state \<Rightarrow> (error + response) \<times> state" where
  "part_000_try w req inputUrl s =
     (if searchParams_has (searchParams req) ''data'' then
        (let s = call (GetVideoInfo inputUrl) s in
         case getVideoInfo w inputUrl of
           Inl e \<Rightarrow> (Inl e, s)
         | Inr videoInfo \<Rightarrow>
             (let s = corsHeaders_set ''Content-Type'' ''application/json; charset=utf-8'' s
              in (new_Response (Some (Text (JSON_stringify w videoInfo))) 200 (corsHeaders s), s)))
      else
        (let s = call (GetVideoUrl inputUrl) s in
         case getVideoUrl w inputUrl of
           Inl e \<Rightarrow> (Inl e, s)
         | Inr videoUrl \<Rightarrow>
             (let s = corsHeaders_set ''Content-Type'' ''text/plain; charset=utf-8'' s
              in (new_Response (Some (Text videoUrl)) 200 (corsHeaders s), s))))"

definition part_000_handler :: "world \<Rightarrow> request \<Rightarrow> (error + response) \<times> event list" where
  "part_000_handler w req =
     (let s = \<lparr>corsHeaders = part_000_createCorsHeaders, calls = []\<rparr> in
      if req_method req = ''OPTIONS'' then (new_Response None 204 (corsHeaders s), calls s)
      else
        (let missing =
               (let s = corsHeaders_set ''Content-Type'' ''text/plain; charset=utf-8'' s
                in (new_Response (Some (Text ''Missing 'url' parameter.'')) 400 (corsHeaders s),
                    calls s))
         in case searchParams_get (searchParams req) ''url'' of
              None \<Rightarrow> missing
            | Some inputUrl \<Rightarrow>
                if inputUrl = '''' then missing
                else
                  (case part_000_try w req inputUrl s of
                     (Inr r, s) \<Rightarrow> (Inr r, calls s)
                   | (Inl e, s) \<Rightarrow>
                       (let s = corsHeaders_set ''Content-Type'' ''text/plain; charset=utf-8'' s
                        in (new_Response (Some (Text ''An internal server error occurred.'')) 500
                              (corsHeaders s), calls s)))))"

section \<open>src/unnamed/part\_001\<close>

text \<open>
  \<open>createCorsHeaders\<close>, the upstream request's headers (lines 47 to 52) and the relayed
  response's headers (lines 60 to 66) are the text of \<open>serve.ts\<close>; the definitions above
  serve both files. The messages of this file are Chinese; they are given as their UTF-8
  bytes.
\<close>

definition msg_no_stream :: string where
  "msg_no_stream =
     [CHR 0xE6, CHR 0x97, CHR 0xA0, CHR 0xE6, CHR 0xB3, CHR 0x95, CHR 0xE4, CHR 0xBB, CHR 0x8E,
      CHR 0xE6, CHR 0xBA, CHR 0x90, CHR 0xE6, CHR 0x9C, CHR 0x8D, CHR 0xE5, CHR 0x8A, CHR 0xA1,
      CHR 0xE5, CHR 0x99, CHR 0xA8, CHR 0xE8, CHR 0x8E, CHR 0xB7, CHR 0xE5, CHR 0x8F, CHR 0x96,
      CHR 0xE8, CHR 0xA7, CHR 0x86, CHR 0xE9, CHR 0xA2, CHR 0x91, CHR 0xE6, CHR 0xB5, CHR 0x81]
     @ '': ''"

definition msg_gallery :: string where
  "msg_gallery =
     [CHR 0xE8, CHR 0xBF, CHR 0x99, CHR 0xE6, CHR 0x98, CHR 0xAF, CHR 0xE4, CHR 0xB8, CHR 0x80,
      CHR 0xE4, CHR 0xB8, CHR 0xAA, CHR 0xE5, CHR 0x9B, CHR 0xBE, CHR 0xE6, CHR 0x96, CHR 0x87,
      CHR 0xE5, CHR 0xB8, CHR 0x96, CHR 0xE5, CHR 0xAD, CHR 0x90, CHR 0xE3, CHR 0x80, CHR 0x82,
      CHR 0xE8, CHR 0xAF, CHR 0xB7, CHR 0xE4, CHR 0xBD, CHR 0xBF, CHR 0xE7, CHR 0x94, CHR 0xA8,
      CHR 0xE5, CHR 0xB8, CHR 0xA6, CHR 0xE6, CHR 0x9C, CHR 0x89]
     @ '' '' @ [CHR 0x27] @ ''&data=true'' @ [CHR 0x27] @ '' '' @
     [CHR 0xE7, CHR 0x9A, CHR 0x84, CHR 0xE6, CHR 0x8E, CHR 0xA5, CHR 0xE5, CHR 0x8F, CHR 0xA3,
      CHR 0xE6, CHR 0x9D, CHR 0xA5, CHR 0xE8, CHR 0x8E, CHR 0xB7, CHR 0xE5, CHR 0x8F, CHR 0x96,
      CHR 0xE5, CHR 0x9B, CHR 0xBE, CHR 0xE7, CHR 0x89, CHR 0x87, CHR 0xE9, CHR 0x93, CHR 0xBE,
      CHR 0xE6, CHR 0x8E, CHR 0xA5, CHR 0xE3, CHR 0x80, CHR 0x82]"

definition msg_unknown :: string where
  "msg_unknown =
     [CHR 0xE6, CHR 0x9C, CHR 0xAA, CHR 0xE7, CHR 0x9F, CHR 0xA5, CHR 0xE6, CHR 0x88, CHR 0x96,
      CHR 0xE4, CHR 0xB8, CHR 0x8D, CHR 0xE6, CHR 0x94, CHR 0xAF, CHR 0xE6, CHR 0x8C, CHR 0x81,
      CHR 0xE7, CHR 0x9A, CHR 0x84, CHR 0xE5, CHR 0x86, CHR 0x85, CHR 0xE5, CHR 0xAE, CHR 0xB9,
      CHR 0xE7, CHR 0xB1, CHR 0xBB, CHR 0xE5, CHR 0x9E, CHR 0x8B, CHR 0xE3, CHR 0x80, CHR 0x82]"

definition msg_internal :: string where
  "msg_internal =
     [CHR 0xE6, CHR 0x9C, CHR 0x8D, CHR 0xE5, CHR 0x8A, CHR 0xA1, CHR 0xE5, CHR 0x99, CHR 0xA8,
      CHR 0xE5, CHR 0x9C, CHR 0xA8, CHR 0xE5, CHR 0xA4, CHR 0x84, CHR 0xE7, CHR 0x90, CHR 0x86,
      CHR 0xE8, CHR 0xAF, CHR 0xB7, CHR 0xE6, CHR 0xB1, CHR 0x82, CHR 0xE6, CHR 0x97, CHR 0xB6,
      CHR 0xE5, CHR 0x8F, CHR 0x91, CHR 0xE7, CHR 0x94, CHR 0x9F, CHR 0xE5, CHR 0x86, CHR 0x85,
      CHR 0xE9, CHR 0x83, CHR 0xA8, CHR 0xE9, CHR 0x94, CHR 0x99, CHR 0xE8, CHR 0xAF, CHR 0xAF,
      CHR 0xE3, CHR 0x80, CHR 0x82]"

text \<open>
  Lines 45 to 76: the branch on the resolved record, once the metadata answer is out of the
  way. In \<open>data.type === 'video' && data.video_url\<close> the URL counts as true when it is
  neither \<open>null\<close> nor empty; it is read (\<open>the\<close>) only then.
\<close>

definition part_001_media ::
  "world \<Rightarrow> request \<Rightarrow> video_info \<Rightarrow> state \<Rightarrow> (error + response) \<times> state" where
  "part_001_media w req data s =
     (if type data = ''video'' \<and> truthy (video_url data) then
        (let s = call (Fetch (the (video_url data)) (videoRequestHeaders req)) s
         in case fetch w (the (video_url data)) (videoRequestHeaders req) of
              Inl e \<Rightarrow> (Inl e, s)
            | Inr videoResponse \<Rightarrow>
                if \<not> ok videoResponse \<or> body videoResponse = None
                then (Inl (Error (msg_no_stream @ decimal (status videoResponse)
                             @ '' '' @ statusText videoResponse)), s)
                else (new_Response (body videoResponse) (status videoResponse)
                        (responseHeaders videoResponse), s))
      else if type data = ''img'' then
        (new_Response (Some (Text msg_gallery)) 400 (corsHeaders s), s)
      else (Inl (Error msg_unknown), s))"

text \<open>Lines 36 to 76: the body of the \<open>try\<close>.\<close>

definition part_001_try ::
  "world \<Rightarrow> request \<Rightarrow> string \<Rightarrow> state \<Rightarrow> (error + response) \<times> state" where
  "part_001_try w req inputUrl s =
     (let s = call (GetVideoInfo inputUrl) s in
      case getVideoInfo w inputUrl of
        Inl e \<Rightarrow> (Inl e, s)
      | Inr data \<Rightarrow>
          if searchParams_has (searchParams req) ''data'' then
            (let s = corsHeaders_set ''Content-Type'' ''application/json; charset=utf-8'' s
             in (new_Response (Some (Text (JSON_stringify w data))) 200 (corsHeaders s), s))
          else part_001_media w req data s)"

definition part_001_handler :: "world \<Rightarrow> request \<Rightarrow> (error + response) \<times> event list" where
  "part_001_handler w req =
     (let s = \<lparr>corsHeaders = createCorsHeaders, calls = []\<rparr> in
      if req_method req = ''OPTIONS'' then (new_Response None 204 (corsHeaders s), calls s)
      else
        (let missing =
               (new_Response (Some (Text ''Missing 'url' parameter.'')) 400 (corsHeaders s),
                calls s)
         in case searchParams_get (searchParams req) ''url'' of
              None \<Rightarrow> missing
            | Some inputUrl \<Rightarrow>
                if inputUrl = '''' then missing
                else
                  (case part_001_try w req inputUrl s of
                     (Inr r, s) \<Rightarrow> (Inr r, calls s)
                   | (Inl e, s) \<Rightarrow>
                       (new_Response (Some (Text msg_internal)) 500 (corsHeaders s), calls s))))"

section \<open>What a caller observes\<close>

text \<open>
  The handler's promise resolves to a response (\<open>Inr\<close>) or rejects (\<open>Inl\<close>). These read the
  status, a header and the body of the response that was sent; each is \<open>None\<close> when the
  promise rejects.
\<close>

definition sent_status :: "(error + response) \<times> event list \<Rightarrow> nat option" where
  "sent_status x = (case fst x of Inl e \<Rightarrow> None | Inr r \<Rightarrow> Some (status r))"

definition sent_header :: "(error + response) \<times> event list \<Rightarrow> string \<Rightarrow> string option" where
  "sent_header x name = (case fst x of Inl e \<Rightarrow> None | Inr r \<Rightarrow> Headers_get (headers r) name)"

definition sent_body :: "(error + response) \<times> event list \<Rightarrow> body option" where
  "sent_body x = (case fst x of Inl e \<Rightarrow> None | Inr r \<Rightarrow> body r)"

section \<open>Concrete requests and worlds\<close>

text \<open>
  A world whose resolver and network answer every call the same way, and a serialiser for
  it; requests for a share link, with and without \<open>data\<close> and \<open>Range\<close>.
\<close>

definition quoted :: "string \<Rightarrow> string" where
  "quoted t = [CHR 0x22] @ t @ [CHR 0x22]"

definition demo_stringify :: "video_info \<Rightarrow> string" where
  "demo_stringify i =
     ''{'' @ quoted ''type'' @ '':'' @ quoted (type i) @ '','' @ quoted ''video_url'' @ '':''
       @ (case video_url i of None \<Rightarrow> ''null'' | Some v \<Rightarrow> quoted v) @ ''}''"

definition demo_world :: "error + video_info \<Rightarrow> error + string \<Rightarrow> error + response \<Rightarrow> world" where
  "demo_world i v up =
     \<lparr>getVideoInfo = (\<lambda>u. i), getVideoUrl = (\<lambda>u. v), fetch = (\<lambda>u h. up),
      JSON_stringify = demo_stringify\<rparr>"

definition demo_share :: string where
  "demo_share = ''https://v.douyin.com/abc/''"

definition demo_media :: string where
  "demo_media = ''https://cdn.example/v.mp4''"

definition demo_video :: video_info where
  "demo_video = \<lparr>type = ''video'', video_url = Some demo_media\<rparr>"

definition demo_video_no_url :: video_info where
  "demo_video_no_url = \<lparr>type = ''video'', video_url = None\<rparr>"

definition demo_gallery :: video_info where
  "demo_gallery = \<lparr>type = ''img'', video_url = None\<rparr>"

definition demo_request :: "string \<Rightarrow> (string \<times> string) list \<Rightarrow> (string \<times> string) list \<Rightarrow> request" where
  "demo_request m ps hs = \<lparr>req_method = m, searchParams = ps, req_headers = map_of hs\<rparr>"

definition demo_upstream :: "nat \<Rightarrow> (string \<times> string) list \<Rightarrow> body option \<Rightarrow> response" where
  "demo_upstream st hs b = \<lparr>status = st, statusText = '''', headers = map_of hs, body = b\<rparr>"

definition demo_partial :: response where
  "demo_partial =
     demo_upstream 206
       [(''content-type'', ''video/mp4''), (''content-length'', ''100''),
        (''content-range'', ''bytes 100-199/5000'')]
       (Some (ReadableStream ''bytes 100 to 199''))"

definition demo_full :: response where
  "demo_full =
     demo_upstream 200 [(''content-type'', ''video/mp4''), (''content-length'', ''5000'')]
       (Some (ReadableStream ''all bytes''))"

section \<open>Header lookups\<close>

lemma byte_lowercase_names:
  "byte_lowercase ''Access-Control-Allow-Origin'' = ''access-control-allow-origin''"
  "byte_lowercase ''Access-Control-Allow-Methods'' = ''access-control-allow-methods''"
  "byte_lowercase ''Access-Control-Allow-Headers'' = ''access-control-allow-headers''"
  "byte_lowercase ''Access-Control-Expose-Headers'' = ''access-control-expose-headers''"
  "byte_lowercase ''Content-Type'' = ''content-type''"
  "byte_lowercase ''Content-Length'' = ''content-length''"
  "byte_lowercase ''Content-Range'' = ''content-range''"
  "byte_lowercase ''content-range'' = ''content-range''"
  "byte_lowercase ''Accept-Ranges'' = ''accept-ranges''"
  "byte_lowercase ''Referer'' = ''referer''"
  "byte_lowercase ''User-Agent'' = ''user-agent''"
  "byte_lowercase ''Range'' = ''range''"
  "byte_lowercase ''range'' = ''range''"
  by (simp_all add: byte_lowercase_def ascii_lower_def)

lemmas Headers_defs = Headers_get_def Headers_set_def Headers_has_def new_Headers_def
  byte_lowercase_names

lemmas run_defs = call_def corsHeaders_set_def Let_def

lemmas sent_defs = sent_status_def sent_header_def sent_body_def

lemmas params_defs = searchParams_get_def searchParams_has_def

lemmas demo_defs = demo_world_def demo_request_def demo_upstream_def demo_share_def
  demo_media_def demo_video_def demo_video_no_url_def demo_gallery_def demo_partial_def
  demo_full_def

lemma createCorsHeaders_get:
  "Headers_get createCorsHeaders ''Access-Control-Allow-Origin'' = Some ''*''"
  "Headers_get createCorsHeaders ''Access-Control-Allow-Methods'' = Some ''GET, OPTIONS''"
  "Headers_get createCorsHeaders ''Access-Control-Allow-Headers'' = Some ''Content-Type, Range''"
  "Headers_get createCorsHeaders ''Access-Control-Expose-Headers'' =
     Some ''Content-Length, Content-Range''"
  "Headers_get createCorsHeaders ''Content-Type'' = None"
  by (simp_all add: createCorsHeaders_def Headers_defs)

lemma part_000_createCorsHeaders_get:
  "Headers_get part_000_createCorsHeaders ''Access-Control-Allow-Origin'' = Some ''*''"
  "Headers_get part_000_createCorsHeaders ''Access-Control-Allow-Methods'' = Some ''GET, OPTIONS''"
  "Headers_get part_000_createCorsHeaders ''Access-Control-Allow-Headers'' = Some ''Content-Type''"
  "Headers_get part_000_createCorsHeaders ''Access-Control-Expose-Headers'' = None"
  "Headers_get part_000_createCorsHeaders ''Content-Type'' = None"
  by (simp_all add: part_000_createCorsHeaders_def Headers_defs)

lemma videoRequestHeaders_get:
  "Headers_get (videoRequestHeaders req) ''Range'' = Headers_get (req_headers req) ''Range''"
  "Headers_get (videoRequestHeaders req) ''Referer'' = Some ''https://www.douyin.com/''"
  "Headers_get (videoRequestHeaders req) ''User-Agent'' =
     Some ''Mozilla/5.0 (Windows NT 10.0; Win64; x64) AppleWebKit/537.36 (KHTML, like Gecko) Chrome/107.0.0.0 Safari/537.36''"
  by (simp_all add: videoRequestHeaders_def Headers_defs Let_def split: option.split)

lemma responseHeaders_get:
  "Headers_get (responseHeaders up) ''Content-Type'' =
     Some (or_else (Headers_get (headers up) ''Content-Type'') ''video/mp4'')"
  "Headers_get (responseHeaders up) ''Content-Length'' =
     Some (or_else (Headers_get (headers up) ''Content-Length'') ''0'')"
  "Headers_get (responseHeaders up) ''Accept-Ranges'' = Some ''bytes''"
  "Headers_get (responseHeaders up) ''Content-Range'' = Headers_get (headers up) ''Content-Range''"
  "Headers_get (responseHeaders up) ''Access-Control-Allow-Origin'' = Some ''*''"
  "Headers_get (responseHeaders up) ''Access-Control-Allow-Methods'' = Some ''GET, OPTIONS''"
  "Headers_get (responseHeaders up) ''Access-Control-Allow-Headers'' = Some ''Content-Type, Range''"
  "Headers_get (responseHeaders up) ''Access-Control-Expose-Headers'' =
     Some ''Content-Length, Content-Range''"
  by (simp_all add: responseHeaders_def createCorsHeaders_def Headers_defs Let_def
      split: option.split)

section \<open>Constructing responses\<close>

lemma new_Response_null:
  "new_Response None 204 h = Inr \<lparr>status = 204, statusText = '''', headers = h, body = None\<rparr>"
  by (simp add: new_Response_def with_body_type_def)

lemma new_Response_text:
  assumes "200 \<le> s" "s \<le> 599" "\<not> null_body_status s"
  shows "new_Response (Some (Text t)) s h =
           Inr \<lparr>status = s, statusText = '''',
                headers = (if Headers_get h ''Content-Type'' = None
                           then Headers_set h ''Content-Type'' ''text/plain;charset=UTF-8'' else h),
                body = Some (Text t)\<rparr>"
  using assms by (simp add: new_Response_def with_body_type_def Headers_has_def Headers_get_def)

lemma new_Response_relay:
  assumes "ok up" "\<not> null_body_status (status up)"
  shows "new_Response (Some b) (status up) (responseHeaders up) =
           Inr \<lparr>status = status up, statusText = '''', headers = responseHeaders up, body = Some b\<rparr>"
  using assms responseHeaders_get(1) [of up]
  by (cases b) (simp_all add: new_Response_def with_body_type_def ok_def Headers_has_def
      Headers_get_def)

lemma null_body_status_simps:
  "\<not> null_body_status 200" "\<not> null_body_status 206" "\<not> null_body_status 400"
  "\<not> null_body_status 500"
  by (simp_all add: null_body_status_def)

lemma Content_Type_set:
  "Headers_get (Headers_set h ''Content-Type'' v) ''Content-Type'' = Some v"
  by (simp add: Headers_defs)

section \<open>The paths of src/serve.ts\<close>

lemma serve_options:
  assumes "req_method req = ''OPTIONS''"
  shows "serve_handler w req =
           (Inr \<lparr>status = 204, statusText = '''', headers = createCorsHeaders, body = None\<rparr>, [])"
  using assms by (simp add: serve_handler_def new_Response_null)

lemma serve_missing:
  assumes "req_method req \<noteq> ''OPTIONS''" "\<not> truthy (searchParams_get (searchParams req) ''url'')"
  shows "serve_handler w req =
           (Inr \<lparr>status = 400, statusText = '''',
                 headers = Headers_set createCorsHeaders ''Content-Type'' ''text/plain; charset=utf-8'',
                 body = Some (Text ''Missing 'url' parameter.'')\<rparr>, [])"
  using assms
  by (simp add: serve_handler_def run_defs truthy_def new_Response_text null_body_status_simps
      Content_Type_set split: option.splits)

lemma serve_data:
  assumes "req_method req \<noteq> ''OPTIONS''" "searchParams_get (searchParams req) ''url'' = Some u"
    "u \<noteq> ''''" "searchParams_has (searchParams req) ''data''"
  shows "serve_handler w req =
           (case getVideoInfo w u of
              Inr videoInfo \<Rightarrow>
                Inr \<lparr>status = 200, statusText = '''',
                     headers = Headers_set createCorsHeaders ''Content-Type''
                                 ''application/json; charset=utf-8'',
                     body = Some (Text (JSON_stringify w videoInfo))\<rparr>
            | Inl e \<Rightarrow>
                Inr \<lparr>status = 500, statusText = '''',
                     headers = Headers_set createCorsHeaders ''Content-Type''
                                 ''text/plain;charset=UTF-8'',
                     body = Some (Text ''Error fetching video info.'')\<rparr>,
            [GetVideoInfo u])"
  using assms
  by (simp add: serve_handler_def serve_try_data_def run_defs new_Response_text
      null_body_status_simps Content_Type_set createCorsHeaders_get split: sum.split)

text \<open>The response of the second \<open>catch\<close>.\<close>

lemma serve_proxy:
  assumes "req_method req \<noteq> ''OPTIONS''" "searchParams_get (searchParams req) ''url'' = Some u"
    "u \<noteq> ''''" "\<not> searchParams_has (searchParams req) ''data''"
  shows "serve_handler w req =
           (case serve_try_proxy w req u \<lparr>corsHeaders = createCorsHeaders, calls = []\<rparr> of
              (Inr r, s) \<Rightarrow> (Inr r, calls s)
            | (Inl e, s) \<Rightarrow>
                (Inr \<lparr>status = 500, statusText = '''',
                      headers = Headers_set createCorsHeaders ''Content-Type''
                                  ''text/plain;charset=UTF-8'',
                      body = Some (Text ''An internal server error occurred while proxying video.'')\<rparr>,
                 calls s))"
proof -
  have cors: "corsHeaders (snd (serve_try_proxy w req u s)) = corsHeaders s" for s
    by (simp add: serve_try_proxy_def run_defs split: sum.split)
  show ?thesis
    using assms cors [of "\<lparr>corsHeaders = createCorsHeaders, calls = []\<rparr>"]
    by (auto simp add: serve_handler_def Let_def new_Response_text null_body_status_simps
        createCorsHeaders_get split: prod.split sum.split)
qed

lemma with_body_type_responseHeaders: "with_body_type b (responseHeaders up) = responseHeaders up"
  using responseHeaders_get(1) [of up]
  by (simp add: with_body_type_def Headers_has_def Headers_get_def split: option.split body.split)

lemma new_Response_responseHeaders:
  "new_Response b s (responseHeaders up) = Inr r \<Longrightarrow> headers r = responseHeaders up"
  by (auto simp add: new_Response_def with_body_type_responseHeaders split: if_splits)

lemma serve_try_proxy_headers:
  "fst (serve_try_proxy w req u s) = Inr r \<Longrightarrow> \<exists>up. headers r = responseHeaders up"
  by (auto simp add: serve_try_proxy_def run_defs dest: new_Response_responseHeaders
      split: sum.splits if_splits)

lemma serve_try_proxy_status:
  "fst (serve_try_proxy w req u s) = Inr r \<Longrightarrow> 200 \<le> status r \<and> status r \<le> 299"
  by (auto simp add: serve_try_proxy_def run_defs new_Response_def ok_def
      split: sum.splits if_splits)

lemma cors_after_Content_Type:
  "Headers_get (Headers_set createCorsHeaders ''Content-Type'' v) ''Access-Control-Allow-Origin'' =
     Some ''*''"
  "Headers_get (Headers_set createCorsHeaders ''Content-Type'' v) ''Access-Control-Allow-Methods'' =
     Some ''GET, OPTIONS''"
  "Headers_get (Headers_set createCorsHeaders ''Content-Type'' v) ''Access-Control-Allow-Headers'' =
     Some ''Content-Type, Range''"
  "Headers_get (Headers_set createCorsHeaders ''Content-Type'' v) ''Access-Control-Expose-Headers'' =
     Some ''Content-Length, Content-Range''"
  by (simp_all add: createCorsHeaders_def Headers_defs)

lemma part_000_cors_after_Content_Type:
  "Headers_get (Headers_set part_000_createCorsHeaders ''Content-Type'' v)
     ''Access-Control-Allow-Origin'' = Some ''*''"
  "Headers_get (Headers_set part_000_createCorsHeaders ''Content-Type'' v)
     ''Access-Control-Allow-Methods'' = Some ''GET, OPTIONS''"
  "Headers_get (Headers_set part_000_createCorsHeaders ''Content-Type'' v)
     ''Access-Control-Allow-Headers'' = Some ''Content-Type''"
  "Headers_get (Headers_set part_000_createCorsHeaders ''Content-Type'' v)
     ''Access-Control-Expose-Headers'' = None"
  by (simp_all add: part_000_createCorsHeaders_def Headers_defs)

lemma serve_cors:
  "sent_header (serve_handler w req) ''Access-Control-Allow-Origin'' = Some ''*''
 \<and> sent_header (serve_handler w req) ''Access-Control-Allow-Methods'' = Some ''GET, OPTIONS''
 \<and> sent_header (serve_handler w req) ''Access-Control-Allow-Headers'' = Some ''Content-Type, Range''
 \<and> sent_header (serve_handler w req) ''Access-Control-Expose-Headers'' =
      Some ''Content-Length, Content-Range''"
proof (cases "req_method req = ''OPTIONS''")
  case True
  then show ?thesis by (simp add: serve_options sent_header_def createCorsHeaders_get)
next
  case False
  note m = this
  show ?thesis
  proof (cases "truthy (searchParams_get (searchParams req) ''url'')")
    case False
    with m show ?thesis by (simp add: serve_missing sent_header_def cors_after_Content_Type)
  next
    case True
    then obtain u where u: "searchParams_get (searchParams req) ''url'' = Some u" "u \<noteq> ''''"
      by (auto simp add: truthy_def split: option.splits)
    show ?thesis
    proof (cases "searchParams_has (searchParams req) ''data''")
      case True
      show ?thesis
        by (simp add: serve_data [OF m u True] sent_header_def cors_after_Content_Type
            split: sum.split)
    next
      case False
      obtain x s where x: "serve_try_proxy w req u \<lparr>corsHeaders = createCorsHeaders, calls = []\<rparr> = (x, s)"
        by (cases "serve_try_proxy w req u \<lparr>corsHeaders = createCorsHeaders, calls = []\<rparr>")
      show ?thesis
      proof (cases x)
        case (Inl e)
        with x show ?thesis
          by (simp add: serve_proxy [OF m u False] sent_header_def cors_after_Content_Type)
      next
        case (Inr r)
        with x have "fst (serve_try_proxy w req u \<lparr>corsHeaders = createCorsHeaders, calls = []\<rparr>) = Inr r"
          by simp
        then obtain up where "headers r = responseHeaders up"
          using serve_try_proxy_headers by blast
        with x Inr show ?thesis
          by (simp add: serve_proxy [OF m u False] sent_header_def responseHeaders_get)
      qed
    qed
  qed
qed

section \<open>The paths of src/unnamed/part\_001\<close>

lemma part_001_options:
  assumes "req_method req = ''OPTIONS''"
  shows "part_001_handler w req =
           (Inr \<lparr>status = 204, statusText = '''', headers = createCorsHeaders, body = None\<rparr>, [])"
  using assms by (simp add: part_001_handler_def new_Response_null)

lemma part_001_missing:
  assumes "req_method req \<noteq> ''OPTIONS''" "\<not> truthy (searchParams_get (searchParams req) ''url'')"
  shows "part_001_handler w req =
           (Inr \<lparr>status = 400, statusText = '''',
                 headers = Headers_set createCorsHeaders ''Content-Type'' ''text/plain;charset=UTF-8'',
                 body = Some (Text ''Missing 'url' parameter.'')\<rparr>, [])"
  using assms
  by (simp add: part_001_handler_def run_defs truthy_def new_Response_text null_body_status_simps
      createCorsHeaders_get split: option.splits)

lemma part_001_resolver_fails:
  assumes "req_method req \<noteq> ''OPTIONS''" "searchParams_get (searchParams req) ''url'' = Some u"
    "u \<noteq> ''''" "getVideoInfo w u = Inl e"
  shows "part_001_handler w req =
           (Inr \<lparr>status = 500, statusText = '''',
                 headers = Headers_set createCorsHeaders ''Content-Type'' ''text/plain;charset=UTF-8'',
                 body = Some (Text msg_internal)\<rparr>, [GetVideoInfo u])"
  using assms
  by (simp add: part_001_handler_def part_001_try_def run_defs new_Response_text
      null_body_status_simps createCorsHeaders_get)

lemma part_001_data:
  assumes "req_method req \<noteq> ''OPTIONS''" "searchParams_get (searchParams req) ''url'' = Some u"
    "u \<noteq> ''''" "getVideoInfo w u = Inr d" "searchParams_has (searchParams req) ''data''"
  shows "part_001_handler w req =
           (Inr \<lparr>status = 200, statusText = '''',
                 headers = Headers_set createCorsHeaders ''Content-Type''
                             ''application/json; charset=utf-8'',
                 body = Some (Text (JSON_stringify w d))\<rparr>, [GetVideoInfo u])"
  using assms
  by (simp add: part_001_handler_def part_001_try_def run_defs new_Response_text
      null_body_status_simps Content_Type_set)

lemma part_001_media_corsHeaders: "corsHeaders (snd (part_001_media w req d s)) = corsHeaders s"
  by (simp add: part_001_media_def run_defs split: sum.split)

lemma part_001_relay:
  assumes "req_method req \<noteq> ''OPTIONS''" "searchParams_get (searchParams req) ''url'' = Some u"
    "u \<noteq> ''''" "getVideoInfo w u = Inr d" "\<not> searchParams_has (searchParams req) ''data''"
  shows "part_001_handler w req =
           (case part_001_media w req d \<lparr>corsHeaders = createCorsHeaders, calls = [GetVideoInfo u]\<rparr> of
              (Inr r, s) \<Rightarrow> (Inr r, calls s)
            | (Inl e, s) \<Rightarrow>
                (Inr \<lparr>status = 500, statusText = '''',
                      headers = Headers_set createCorsHeaders ''Content-Type''
                                  ''text/plain;charset=UTF-8'',
                      body = Some (Text msg_internal)\<rparr>, calls s))"
  using assms
    part_001_media_corsHeaders [of w req d "\<lparr>corsHeaders = createCorsHeaders, calls = [GetVideoInfo u]\<rparr>"]
  by (auto simp add: part_001_handler_def part_001_try_def run_defs new_Response_text
      null_body_status_simps createCorsHeaders_get split: prod.split sum.split)

lemma part_001_media_headers:
  "fst (part_001_media w req d s) = Inr r \<Longrightarrow>
     (\<exists>up. headers r = responseHeaders up) \<or>
     headers r = (if Headers_get (corsHeaders s) ''Content-Type'' = None
                  then Headers_set (corsHeaders s) ''Content-Type'' ''text/plain;charset=UTF-8''
                  else corsHeaders s)"
  by (auto simp add: part_001_media_def run_defs new_Response_text null_body_status_simps
      dest: new_Response_responseHeaders split: sum.splits if_splits)

lemma part_001_cors:
  "sent_header (part_001_handler w req) ''Access-Control-Allow-Origin'' = Some ''*''
 \<and> sent_header (part_001_handler w req) ''Access-Control-Allow-Methods'' = Some ''GET, OPTIONS''
 \<and> sent_header (part_001_handler w req) ''Access-Control-Allow-Headers'' = Some ''Content-Type, Range''
 \<and> sent_header (part_001_handler w req) ''Access-Control-Expose-Headers'' =
      Some ''Content-Length, Content-Range''"
proof (cases "req_method req = ''OPTIONS''")
  case True
  then show ?thesis by (simp add: part_001_options sent_header_def createCorsHeaders_get)
next
  case False
  note m = this
  show ?thesis
  proof (cases "truthy (searchParams_get (searchParams req) ''url'')")
    case False
    with m show ?thesis by (simp add: part_001_missing sent_header_def cors_after_Content_Type)
  next
    case True
    then obtain u where u: "searchParams_get (searchParams req) ''url'' = Some u" "u \<noteq> ''''"
      by (auto simp add: truthy_def split: option.splits)
    show ?thesis
    proof (cases "getVideoInfo w u")
      case (Inl e)
      show ?thesis
        by (simp add: part_001_resolver_fails [OF m u Inl] sent_header_def cors_after_Content_Type)
    next
      case (Inr d)
      note d = this
      show ?thesis
      proof (cases "searchParams_has (searchParams req) ''data''")
        case True
        show ?thesis
          by (simp add: part_001_data [OF m u d True] sent_header_def cors_after_Content_Type)
      next
        case False
        let ?s = "\<lparr>corsHeaders = createCorsHeaders, calls = [GetVideoInfo u]\<rparr>"
        obtain x s where x: "part_001_media w req d ?s = (x, s)"
          by (cases "part_001_media w req d ?s")
        show ?thesis
        proof (cases x)
          case (Inl e)
          with x show ?thesis
            by (simp add: part_001_relay [OF m u d False] sent_header_def cors_after_Content_Type)
        next
          case (Inr r)
          with x have "fst (part_001_media w req d ?s) = Inr r" by simp
          from part_001_media_headers [OF this]
          have "(\<exists>up. headers r = responseHeaders up) \<or>
                headers r = Headers_set createCorsHeaders ''Content-Type'' ''text/plain;charset=UTF-8''"
            by (simp add: createCorsHeaders_get)
          with x Inr show ?thesis
            by (auto simp add: part_001_relay [OF m u d False] sent_header_def responseHeaders_get
                cors_after_Content_Type)
        qed
      qed
    qed
  qed
qed

section \<open>The paths of src/unnamed/part\_000\<close>

lemma part_000_options:
  assumes "req_method req = ''OPTIONS''"
  shows "part_000_handler w req =
           (Inr \<lparr>status = 204, statusText = '''', headers = part_000_createCorsHeaders,
                 body = None\<rparr>, [])"
  using assms by (simp add: part_000_handler_def new_Response_null)

lemma part_000_missing:
  assumes "req_method req \<noteq> ''OPTIONS''" "\<not> truthy (searchParams_get (searchParams req) ''url'')"
  shows "part_000_handler w req =
           (Inr \<lparr>status = 400, statusText = '''',
                 headers = Headers_set part_000_createCorsHeaders ''Content-Type''
                             ''text/plain; charset=utf-8'',
                 body = Some (Text ''Missing 'url' parameter.'')\<rparr>, [])"
  using assms
  by (simp add: part_000_handler_def run_defs truthy_def new_Response_text null_body_status_simps
      Content_Type_set split: option.splits)

lemma part_000_data:
  assumes "req_method req \<noteq> ''OPTIONS''" "searchParams_get (searchParams req) ''url'' = Some u"
    "u \<noteq> ''''" "searchParams_has (searchParams req) ''data''"
  shows "part_000_handler w req =
           (case getVideoInfo w u of
              Inr videoInfo \<Rightarrow>
                Inr \<lparr>status = 200, statusText = '''',
                     headers = Headers_set part_000_createCorsHeaders ''Content-Type''
                                 ''application/json; charset=utf-8'',
                     body = Some (Text (JSON_stringify w videoInfo))\<rparr>
            | Inl e \<Rightarrow>
                Inr \<lparr>status = 500, statusText = '''',
                     headers = Headers_set part_000_createCorsHeaders ''Content-Type''
                                 ''text/plain; charset=utf-8'',
                     body = Some (Text ''An internal server error occurred.'')\<rparr>,
            [GetVideoInfo u])"
  using assms
  by (simp add: part_000_handler_def part_000_try_def run_defs new_Response_text
      null_body_status_simps Content_Type_set split: sum.split)

lemma part_000_url:
  assumes "req_method req \<noteq> ''OPTIONS''" "searchParams_get (searchParams req) ''url'' = Some u"
    "u \<noteq> ''''" "\<not> searchParams_has (searchParams req) ''data''"
  shows "part_000_handler w req =
           (case getVideoUrl w u of
              Inr videoUrl \<Rightarrow>
                Inr \<lparr>status = 200, statusText = '''',
                     headers = Headers_set part_000_createCorsHeaders ''Content-Type''
                                 ''text/plain; charset=utf-8'',
                     body = Some (Text videoUrl)\<rparr>
            | Inl e \<Rightarrow>
                Inr \<lparr>status = 500, statusText = '''',
                     headers = Headers_set part_000_createCorsHeaders ''Content-Type''
                                 ''text/plain; charset=utf-8'',
                     body = Some (Text ''An internal server error occurred.'')\<rparr>,
            [GetVideoUrl u])"
  using assms
  by (simp add: part_000_handler_def part_000_try_def run_defs new_Response_text
      null_body_status_simps Content_Type_set split: sum.split)

lemma part_000_cors:
  "sent_header (part_000_handler w req) ''Access-Control-Allow-Origin'' = Some ''*''
 \<and> sent_header (part_000_handler w req) ''Access-Control-Allow-Methods'' = Some ''GET, OPTIONS''
 \<and> sent_header (part_000_handler w req) ''Access-Control-Allow-Headers'' = Some ''Content-Type''
 \<and> sent_header (part_000_handler w req) ''Access-Control-Expose-Headers'' = None
 \<and> sent_status (part_000_handler w req) \<noteq> None"
proof (cases "req_method req = ''OPTIONS''")
  case True
  then show ?thesis by (simp add: part_000_options sent_defs part_000_createCorsHeaders_get)
next
  case False
  note m = this
  show ?thesis
  proof (cases "truthy (searchParams_get (searchParams req) ''url'')")
    case False
    with m show ?thesis by (simp add: part_000_missing sent_defs part_000_cors_after_Content_Type)
  next
    case True
    then obtain u where u: "searchParams_get (searchParams req) ''url'' = Some u" "u \<noteq> ''''"
      by (auto simp add: truthy_def split: option.splits)
    show ?thesis
    proof (cases "searchParams_has (searchParams req) ''data''")
      case True
      show ?thesis
        by (simp add: part_000_data [OF m u True] sent_defs part_000_cors_after_Content_Type
            split: sum.split)
    next
      case False
      show ?thesis
        by (simp add: part_000_url [OF m u False] sent_defs part_000_cors_after_Content_Type
            split: sum.split)
    qed
  qed
qed

section \<open>The relay, once the URL is resolved\<close>

lemma serve_relay:
  assumes "req_method req \<noteq> ''OPTIONS''" "searchParams_get (searchParams req) ''url'' = Some u"
    "u \<noteq> ''''" "\<not> searchParams_has (searchParams req) ''data''"
    and "getVideoUrl w u = Inr v" "v \<noteq> ''''" "fetch w v (videoRequestHeaders req) = Inr up"
    and "ok up" "\<not> null_body_status (status up)" "body up = Some b"
  shows "serve_handler w req =
           (Inr \<lparr>status = status up, statusText = '''', headers = responseHeaders up,
                 body = Some b\<rparr>,
            [GetVideoUrl u, Fetch v (videoRequestHeaders req)])"
  using assms(5-)
  by (simp add: serve_proxy [OF assms(1-4)] serve_try_proxy_def run_defs
      new_Response_relay [OF assms(8,9)])

lemma serve_upstream_fails:
  assumes "req_method req \<noteq> ''OPTIONS''" "searchParams_get (searchParams req) ''url'' = Some u"
    "u \<noteq> ''''" "\<not> searchParams_has (searchParams req) ''data''"
    and "getVideoUrl w u = Inr v" "v \<noteq> ''''" "fetch w v (videoRequestHeaders req) = Inr up"
    and "\<not> ok up \<or> body up = None"
  shows "serve_handler w req =
           (Inr \<lparr>status = 500, statusText = '''',
                 headers = Headers_set createCorsHeaders ''Content-Type''
                             ''text/plain;charset=UTF-8'',
                 body = Some (Text ''An internal server error occurred while proxying video.'')\<rparr>,
            [GetVideoUrl u, Fetch v (videoRequestHeaders req)])"
  using assms(5-)
  by (auto simp add: serve_proxy [OF assms(1-4)] serve_try_proxy_def run_defs)

lemma serve_resolver_fails:
  assumes "req_method req \<noteq> ''OPTIONS''" "searchParams_get (searchParams req) ''url'' = Some u"
    "u \<noteq> ''''" "\<not> searchParams_has (searchParams req) ''data''"
    and "getVideoUrl w u = Inl e \<or> getVideoUrl w u = Inr ''''"
  shows "serve_handler w req =
           (Inr \<lparr>status = 500, statusText = '''',
                 headers = Headers_set createCorsHeaders ''Content-Type''
                             ''text/plain;charset=UTF-8'',
                 body = Some (Text ''An internal server error occurred while proxying video.'')\<rparr>,
            [GetVideoUrl u])"
  using assms(5-)
  by (auto simp add: serve_proxy [OF assms(1-4)] serve_try_proxy_def run_defs)

lemma part_001_relay_ok:
  assumes "req_method req \<noteq> ''OPTIONS''" "searchParams_get (searchParams req) ''url'' = Some u"
    "u \<noteq> ''''" "\<not> searchParams_has (searchParams req) ''data''"
    and "getVideoInfo w u = Inr d" "type d = ''video''" "video_url d = Some v" "v \<noteq> ''''"
    and "fetch w v (videoRequestHeaders req) = Inr up"
    and "ok up" "\<not> null_body_status (status up)" "body up = Some b"
  shows "part_001_handler w req =
           (Inr \<lparr>status = status up, statusText = '''', headers = responseHeaders up,
                 body = Some b\<rparr>,
            [GetVideoInfo u, Fetch v (videoRequestHeaders req)])"
  using assms(6-)
  by (simp add: part_001_relay [OF assms(1-3,5,4)] part_001_media_def truthy_def run_defs
      new_Response_relay [OF assms(10,11)])

lemma part_001_upstream_fails:
  assumes "req_method req \<noteq> ''OPTIONS''" "searchParams_get (searchParams req) ''url'' = Some u"
    "u \<noteq> ''''" "\<not> searchParams_has (searchParams req) ''data''"
    and "getVideoInfo w u = Inr d" "type d = ''video''" "video_url d = Some v" "v \<noteq> ''''"
    and "fetch w v (videoRequestHeaders req) = Inr up"
    and "\<not> ok up \<or> body up = None"
  shows "part_001_handler w req =
           (Inr \<lparr>status = 500, statusText = '''',
                 headers = Headers_set createCorsHeaders ''Content-Type''
                             ''text/plain;charset=UTF-8'',
                 body = Some (Text msg_internal)\<rparr>,
            [GetVideoInfo u, Fetch v (videoRequestHeaders req)])"
  using assms(6-)
  by (auto simp add: part_001_relay [OF assms(1-3,5,4)] part_001_media_def truthy_def run_defs)

lemma part_001_gallery:
  assumes "req_method req \<noteq> ''OPTIONS''" "searchParams_get (searchParams req) ''url'' = Some u"
    "u \<noteq> ''''" "\<not> searchParams_has (searchParams req) ''data''"
    and "getVideoInfo w u = Inr d" "type d = ''img''"
  shows "part_001_handler w req =
           (Inr \<lparr>status = 400, statusText = '''',
                 headers = Headers_set createCorsHeaders ''Content-Type''
                             ''text/plain;charset=UTF-8'',
                 body = Some (Text msg_gallery)\<rparr>,
            [GetVideoInfo u])"
  using assms(6-)
  by (simp add: part_001_relay [OF assms(1-3,5,4)] part_001_media_def run_defs new_Response_text
      null_body_status_simps createCorsHeaders_get)

lemma part_001_unknown:
  assumes "req_method req \<noteq> ''OPTIONS''" "searchParams_get (searchParams req) ''url'' = Some u"
    "u \<noteq> ''''" "\<not> searchParams_has (searchParams req) ''data''"
    and "getVideoInfo w u = Inr d" "type d \<noteq> ''img''"
    and "type d \<noteq> ''video'' \<or> \<not> truthy (video_url d)"
  shows "part_001_handler w req =
           (Inr \<lparr>status = 500, statusText = '''',
                 headers = Headers_set createCorsHeaders ''Content-Type''
                             ''text/plain;charset=UTF-8'',
                 body = Some (Text msg_internal)\<rparr>,
            [GetVideoInfo u])"
  using assms(6-)
  by (auto simp add: part_001_relay [OF assms(1-3,5,4)] part_001_media_def run_defs)

lemma demo_relay_request:
  "req_method (demo_request ''GET'' [(''url'', demo_share)] []) \<noteq> ''OPTIONS''"
  "searchParams_get (searchParams (demo_request ''GET'' [(''url'', demo_share)] [])) ''url'' =
     Some demo_share"
  "demo_share \<noteq> ''''"
  "\<not> searchParams_has (searchParams (demo_request ''GET'' [(''url'', demo_share)] [])) ''data''"
  by (simp_all add: demo_request_def demo_share_def params_defs)

section \<open>The upstream fetches of a run\<close>

lemma serve_fetches:
  "Fetch v h \<in> set (snd (serve_handler w req)) \<Longrightarrow> h = videoRequestHeaders req"
  by (auto simp add: serve_handler_def serve_try_data_def serve_try_proxy_def run_defs
      new_Response_def split: if_splits option.splits sum.splits prod.splits)

lemma part_001_fetches:
  "Fetch v h \<in> set (snd (part_001_handler w req)) \<Longrightarrow> h = videoRequestHeaders req"
  by (auto simp add: part_001_handler_def part_001_try_def part_001_media_def run_defs
      new_Response_def split: if_splits option.splits sum.splits prod.splits)

section \<open>The claims\<close>

text \<open>
  In the statements below a media-relay request is one whose method is not \<open>OPTIONS\<close>, whose
  \<open>url\<close> parameter is present and not empty, and that has no \<open>data\<close> parameter. It resolves
  to a video when \<open>getVideoUrl\<close> gives a non-empty URL (\<open>serve.ts\<close>, \<open>part_000\<close>), or when
  \<open>getVideoInfo\<close> gives a record of type \<open>video\<close> with a non-empty \<open>video_url\<close> (\<open>part_001\<close>).
  An upstream response that \<open>fetch\<close> resolves to carries a body unless its status is a
  null-body status; the statements about a relayed response name that body.
\<close>

text \<open>
  C1. For a media-relay request that resolves to a video, in \<open>serve.ts\<close> and in \<open>part_001\<close>:
  the handler makes one upstream fetch, of the resolved URL, and the \<open>Range\<close> header of that
  fetch is the caller's \<open>Range\<close> header: the same value when the caller sent one, absent
  when the caller sent none. When the upstream answers 206 with a body and a
  \<open>Content-Range\<close> header, the response sent has status 206 and the same \<open>Content-Range\<close>.
\<close>

theorem range_forwarding:
  assumes "req_method req \<noteq> ''OPTIONS''"
    and "searchParams_get (searchParams req) ''url'' = Some u" and "u \<noteq> ''''"
    and "\<not> searchParams_has (searchParams req) ''data''"
  shows "Headers_get (videoRequestHeaders req) ''Range'' = Headers_get (req_headers req) ''Range''
     \<and> (\<forall>v. getVideoUrl w u = Inr v \<and> v \<noteq> '''' \<longrightarrow>
          snd (serve_handler w req) = [GetVideoUrl u, Fetch v (videoRequestHeaders req)]
        \<and> (\<forall>up b cr. fetch w v (videoRequestHeaders req) = Inr up \<and> status up = 206
               \<and> body up = Some b \<and> Headers_get (headers up) ''Content-Range'' = Some cr \<longrightarrow>
             sent_status (serve_handler w req) = Some 206
           \<and> sent_header (serve_handler w req) ''Content-Range'' = Some cr))
     \<and> (\<forall>d v. getVideoInfo w u = Inr d \<and> type d = ''video'' \<and> video_url d = Some v \<and> v \<noteq> '''' \<longrightarrow>
          snd (part_001_handler w req) = [GetVideoInfo u, Fetch v (videoRequestHeaders req)]
        \<and> (\<forall>up b cr. fetch w v (videoRequestHeaders req) = Inr up \<and> status up = 206
               \<and> body up = Some b \<and> Headers_get (headers up) ''Content-Range'' = Some cr \<longrightarrow>
             sent_status (part_001_handler w req) = Some 206
           \<and> sent_header (part_001_handler w req) ''Content-Range'' = Some cr))"
proof (intro conjI allI impI)
  show "Headers_get (videoRequestHeaders req) ''Range'' = Headers_get (req_headers req) ''Range''"
    by (rule videoRequestHeaders_get)
next
  fix v assume v: "getVideoUrl w u = Inr v \<and> v \<noteq> ''''"
  show "snd (serve_handler w req) = [GetVideoUrl u, Fetch v (videoRequestHeaders req)]"
    using v by (simp add: serve_proxy [OF assms] serve_try_proxy_def run_defs
        split: sum.split prod.split)
  fix up b cr
  assume up: "fetch w v (videoRequestHeaders req) = Inr up \<and> status up = 206
               \<and> body up = Some b \<and> Headers_get (headers up) ''Content-Range'' = Some cr"
  then have "new_Response (Some b) (status up) (responseHeaders up) =
           Inr \<lparr>status = status up, statusText = '''', headers = responseHeaders up, body = Some b\<rparr>"
    by (intro new_Response_relay) (simp_all add: ok_def null_body_status_def)
  with v up show "sent_status (serve_handler w req) = Some 206"
    and "sent_header (serve_handler w req) ''Content-Range'' = Some cr"
    by (simp_all add: serve_proxy [OF assms] serve_try_proxy_def run_defs ok_def sent_defs
        responseHeaders_get)
next
  fix d v
  assume d: "getVideoInfo w u = Inr d \<and> type d = ''video'' \<and> video_url d = Some v \<and> v \<noteq> ''''"
  then have i: "getVideoInfo w u = Inr d" by simp
  show "snd (part_001_handler w req) = [GetVideoInfo u, Fetch v (videoRequestHeaders req)]"
    using d by (simp add: part_001_relay [OF assms(1-3) i assms(4)] part_001_media_def truthy_def
        run_defs split: sum.split prod.split)
  fix up b cr
  assume up: "fetch w v (videoRequestHeaders req) = Inr up \<and> status up = 206
               \<and> body up = Some b \<and> Headers_get (headers up) ''Content-Range'' = Some cr"
  then have "new_Response (Some b) (status up) (responseHeaders up) =
           Inr \<lparr>status = status up, statusText = '''', headers = responseHeaders up, body = Some b\<rparr>"
    by (intro new_Response_relay) (simp_all add: ok_def null_body_status_def)
  with d up show "sent_status (part_001_handler w req) = Some 206"
    and "sent_header (part_001_handler w req) ''Content-Range'' = Some cr"
    by (simp_all add: part_001_relay [OF assms(1-3) i assms(4)] part_001_media_def truthy_def
        run_defs ok_def sent_defs responseHeaders_get)
qed

theorem range_forwarding_witness:
  "Headers_get
     (videoRequestHeaders
        (demo_request ''GET'' [(''url'', demo_share)] [(''range'', ''bytes=100-199'')]))
     ''Range'' = Some ''bytes=100-199''
 \<and> Headers_get (videoRequestHeaders (demo_request ''GET'' [(''url'', demo_share)] [])) ''Range'' = None
 \<and> snd (serve_handler (demo_world (Inr demo_video) (Inr demo_media) (Inr demo_partial))
           (demo_request ''GET'' [(''url'', demo_share)] [(''range'', ''bytes=100-199'')])) =
      [GetVideoUrl demo_share,
       Fetch demo_media
         (videoRequestHeaders
            (demo_request ''GET'' [(''url'', demo_share)] [(''range'', ''bytes=100-199'')]))]
 \<and> sent_status (serve_handler (demo_world (Inr demo_video) (Inr demo_media) (Inr demo_partial))
           (demo_request ''GET'' [(''url'', demo_share)] [(''range'', ''bytes=100-199'')])) =
      Some 206
 \<and> sent_header (serve_handler (demo_world (Inr demo_video) (Inr demo_media) (Inr demo_partial))
           (demo_request ''GET'' [(''url'', demo_share)] [(''range'', ''bytes=100-199'')]))
      ''Content-Range'' = Some ''bytes 100-199/5000''
 \<and> sent_status (part_001_handler (demo_world (Inr demo_video) (Inr demo_media) (Inr demo_partial))
           (demo_request ''GET'' [(''url'', demo_share)] [(''range'', ''bytes=100-199'')])) =
      Some 206
 \<and> sent_header (part_001_handler (demo_world (Inr demo_video) (Inr demo_media) (Inr demo_partial))
           (demo_request ''GET'' [(''url'', demo_share)] [(''range'', ''bytes=100-199'')]))
      ''Content-Range'' = Some ''bytes 100-199/5000''"
proof -
  let ?w = "demo_world (Inr demo_video) (Inr demo_media) (Inr demo_partial)"
  let ?r = "demo_request ''GET'' [(''url'', demo_share)] [(''range'', ''bytes=100-199'')]"
  let ?q = "demo_request ''GET'' [(''url'', demo_share)] []"
  have r: "req_method ?r \<noteq> ''OPTIONS''" "searchParams_get (searchParams ?r) ''url'' = Some demo_share"
    "demo_share \<noteq> ''''" "\<not> searchParams_has (searchParams ?r) ''data''"
    by (simp_all add: demo_defs params_defs)
  have r0: "req_method ?q \<noteq> ''OPTIONS''" "searchParams_get (searchParams ?q) ''url'' = Some demo_share"
    "demo_share \<noteq> ''''" "\<not> searchParams_has (searchParams ?q) ''data''"
    by (simp_all add: demo_defs params_defs)
  have get: "Headers_get (req_headers ?r) ''Range'' = Some ''bytes=100-199''"
    "Headers_get (req_headers ?q) ''Range'' = None"
    by (simp_all add: demo_request_def Headers_defs)
  have w: "getVideoUrl ?w demo_share = Inr demo_media" "getVideoInfo ?w demo_share = Inr demo_video"
    "fetch ?w demo_media (videoRequestHeaders ?r) = Inr demo_partial" "demo_media \<noteq> ''''"
    "type demo_video = ''video''" "video_url demo_video = Some demo_media"
    "status demo_partial = 206" "body demo_partial = Some (ReadableStream ''bytes 100 to 199'')"
    "Headers_get (headers demo_partial) ''Content-Range'' = Some ''bytes 100-199/5000''"
    by (simp_all add: demo_world_def demo_video_def demo_media_def demo_partial_def
        demo_upstream_def Headers_defs)
  from range_forwarding [OF r, of ?w] range_forwarding [OF r0, of ?w] get w
  show ?thesis by simp
qed

text \<open>
  C2. As stated the claim fails for \<open>part_000\<close>, whose \<open>createCorsHeaders\<close> allows the request
  header \<open>Content-Type\<close> only and exposes no response header. Amended: every run of a handler
  ends in a response (the promise never rejects), and on every path that response carries,
  in \<open>serve.ts\<close> and \<open>part_001\<close>, \<open>Access-Control-Allow-Origin: *\<close>,
  \<open>Access-Control-Allow-Methods: GET, OPTIONS\<close>,
  \<open>Access-Control-Allow-Headers: Content-Type, Range\<close> and
  \<open>Access-Control-Expose-Headers: Content-Length, Content-Range\<close>; in \<open>part_000\<close> it carries
  the first two, \<open>Access-Control-Allow-Headers: Content-Type\<close>, and no
  \<open>Access-Control-Expose-Headers\<close>.
\<close>

theorem cors_on_every_response:
  "sent_header (serve_handler w req) ''Access-Control-Allow-Origin'' = Some ''*''
 \<and> sent_header (serve_handler w req) ''Access-Control-Allow-Methods'' = Some ''GET, OPTIONS''
 \<and> sent_header (serve_handler w req) ''Access-Control-Allow-Headers'' = Some ''Content-Type, Range''
 \<and> sent_header (serve_handler w req) ''Access-Control-Expose-Headers'' =
      Some ''Content-Length, Content-Range''
 \<and> sent_header (part_001_handler w req) ''Access-Control-Allow-Origin'' = Some ''*''
 \<and> sent_header (part_001_handler w req) ''Access-Control-Allow-Methods'' = Some ''GET, OPTIONS''
 \<and> sent_header (part_001_handler w req) ''Access-Control-Allow-Headers'' = Some ''Content-Type, Range''
 \<and> sent_header (part_001_handler w req) ''Access-Control-Expose-Headers'' =
      Some ''Content-Length, Content-Range''
 \<and> sent_header (part_000_handler w req) ''Access-Control-Allow-Origin'' = Some ''*''
 \<and> sent_header (part_000_handler w req) ''Access-Control-Allow-Methods'' = Some ''GET, OPTIONS''
 \<and> sent_header (part_000_handler w req) ''Access-Control-Allow-Headers'' = Some ''Content-Type''
 \<and> sent_header (part_000_handler w req) ''Access-Control-Expose-Headers'' = None
 \<and> sent_status (part_000_handler w req) \<noteq> None"
  using serve_cors [of w req] part_001_cors [of w req] part_000_cors [of w req] by simp

theorem cors_on_every_response_witness:
  "sent_header
     (serve_handler (demo_world (Inl (Error ''gone'')) (Inl (Error ''gone'')) (Inl (TypeError ''network'')))
        (demo_request ''GET'' [(''url'', demo_share)] []))
     ''Access-Control-Allow-Headers'' = Some ''Content-Type, Range''
 \<and> sent_header
     (part_001_handler
        (demo_world (Inl (Error ''gone'')) (Inl (Error ''gone'')) (Inl (TypeError ''network'')))
        (demo_request ''GET'' [(''url'', demo_share)] []))
     ''Access-Control-Expose-Headers'' = Some ''Content-Length, Content-Range''
 \<and> sent_status
     (serve_handler (demo_world (Inl (Error ''gone'')) (Inl (Error ''gone'')) (Inl (TypeError ''network'')))
        (demo_request ''GET'' [(''url'', demo_share)] [])) = Some 500"
proof -
  let ?w = "demo_world (Inl (Error ''gone'')) (Inl (Error ''gone'')) (Inl (TypeError ''network''))"
  let ?r = "demo_request ''GET'' [(''url'', demo_share)] []"
  have r: "req_method ?r \<noteq> ''OPTIONS''" "searchParams_get (searchParams ?r) ''url'' = Some demo_share"
    "demo_share \<noteq> ''''" "\<not> searchParams_has (searchParams ?r) ''data''"
    by (simp_all add: demo_defs params_defs)
  have "sent_status (serve_handler ?w ?r) = Some 500"
    by (simp add: serve_proxy [OF r] serve_try_proxy_def run_defs demo_world_def sent_defs)
  with cors_on_every_response [of ?w ?r] show ?thesis by simp
qed

theorem cors_part_000_counterexample:
  "sent_status (part_000_handler (demo_world (Inr demo_video) (Inr demo_media) (Inr demo_full))
      (demo_request ''GET'' [(''url'', demo_share)] [])) = Some 200
 \<and> sent_header (part_000_handler (demo_world (Inr demo_video) (Inr demo_media) (Inr demo_full))
      (demo_request ''GET'' [(''url'', demo_share)] []))
      ''Access-Control-Allow-Headers'' = Some ''Content-Type''
 \<and> sent_header (part_000_handler (demo_world (Inr demo_video) (Inr demo_media) (Inr demo_full))
      (demo_request ''GET'' [(''url'', demo_share)] []))
      ''Access-Control-Expose-Headers'' = None"
proof -
  let ?w = "demo_world (Inr demo_video) (Inr demo_media) (Inr demo_full)"
  let ?r = "demo_request ''GET'' [(''url'', demo_share)] []"
  have r: "req_method ?r \<noteq> ''OPTIONS''" "searchParams_get (searchParams ?r) ''url'' = Some demo_share"
    "demo_share \<noteq> ''''" "\<not> searchParams_has (searchParams ?r) ''data''"
    by (simp_all add: demo_defs params_defs)
  show ?thesis
    by (simp add: part_000_url [OF r] demo_world_def sent_defs part_000_cors_after_Content_Type)
qed

text \<open>
  C3. As stated the claim fails for \<open>part_000\<close>, which makes no upstream fetch and answers
  200 \<open>text/plain\<close> with the resolved URL as the body; and in \<open>serve.ts\<close> an upstream
  \<open>Content-Type\<close> (or \<open>Content-Length\<close>) that is present but empty is replaced by the default,
  not copied. Amended: for a media-relay request that resolves to a video, when the upstream
  answers 200 or 206 with a body, \<open>serve.ts\<close> and \<open>part_001\<close> send a response whose body is the
  upstream's body stream and whose status is the upstream's status; its \<open>Content-Type\<close> is the
  upstream's, or \<open>video/mp4\<close> when that is absent or empty; its \<open>Content-Length\<close> is the
  upstream's, or \<open>0\<close> when that is absent or empty; its \<open>Accept-Ranges\<close> is \<open>bytes\<close>. In
  \<open>part_000\<close> a media-relay request whose URL resolves gets status 200, content type
  \<open>text/plain; charset=utf-8\<close> and the resolved URL as the body, and no upstream fetch is made.
\<close>

theorem media_relay_response:
  assumes "req_method req \<noteq> ''OPTIONS''"
    and "searchParams_get (searchParams req) ''url'' = Some u" and "u \<noteq> ''''"
    and "\<not> searchParams_has (searchParams req) ''data''"
  shows "(\<forall>v up b. getVideoUrl w u = Inr v \<and> v \<noteq> ''''
            \<and> fetch w v (videoRequestHeaders req) = Inr up
            \<and> (status up = 200 \<or> status up = 206) \<and> body up = Some b \<longrightarrow>
           serve_handler w req =
             (Inr \<lparr>status = status up, statusText = '''', headers = responseHeaders up,
                   body = Some b\<rparr>,
              [GetVideoUrl u, Fetch v (videoRequestHeaders req)]))
     \<and> (\<forall>d v up b. getVideoInfo w u = Inr d \<and> type d = ''video'' \<and> video_url d = Some v
            \<and> v \<noteq> '''' \<and> fetch w v (videoRequestHeaders req) = Inr up
            \<and> (status up = 200 \<or> status up = 206) \<and> body up = Some b \<longrightarrow>
           part_001_handler w req =
             (Inr \<lparr>status = status up, statusText = '''', headers = responseHeaders up,
                   body = Some b\<rparr>,
              [GetVideoInfo u, Fetch v (videoRequestHeaders req)]))
     \<and> (\<forall>up. Headers_get (responseHeaders up) ''Content-Type'' =
                 Some (or_else (Headers_get (headers up) ''Content-Type'') ''video/mp4'')
             \<and> Headers_get (responseHeaders up) ''Content-Length'' =
                 Some (or_else (Headers_get (headers up) ''Content-Length'') ''0'')
             \<and> Headers_get (responseHeaders up) ''Accept-Ranges'' = Some ''bytes'')
     \<and> (\<forall>v. getVideoUrl w u = Inr v \<longrightarrow>
           part_000_handler w req =
             (Inr \<lparr>status = 200, statusText = '''',
                   headers = Headers_set part_000_createCorsHeaders ''Content-Type''
                               ''text/plain; charset=utf-8'',
                   body = Some (Text v)\<rparr>,
              [GetVideoUrl u]))"
proof (intro conjI allI impI)
  fix v up b
  assume a: "getVideoUrl w u = Inr v \<and> v \<noteq> '''' \<and> fetch w v (videoRequestHeaders req) = Inr up
            \<and> (status up = 200 \<or> status up = 206) \<and> body up = Some b"
  then have ok: "ok up" "\<not> null_body_status (status up)"
    by (auto simp add: ok_def null_body_status_def)
  from a ok show "serve_handler w req =
             (Inr \<lparr>status = status up, statusText = '''', headers = responseHeaders up,
                   body = Some b\<rparr>,
              [GetVideoUrl u, Fetch v (videoRequestHeaders req)])"
    by (simp add: serve_proxy [OF assms] serve_try_proxy_def run_defs new_Response_relay [OF ok])
next
  fix d v up b
  assume a: "getVideoInfo w u = Inr d \<and> type d = ''video'' \<and> video_url d = Some v
            \<and> v \<noteq> '''' \<and> fetch w v (videoRequestHeaders req) = Inr up
            \<and> (status up = 200 \<or> status up = 206) \<and> body up = Some b"
  then have i: "getVideoInfo w u = Inr d" by simp
  from a have ok: "ok up" "\<not> null_body_status (status up)"
    by (auto simp add: ok_def null_body_status_def)
  from a ok show "part_001_handler w req =
             (Inr \<lparr>status = status up, statusText = '''', headers = responseHeaders up,
                   body = Some b\<rparr>,
              [GetVideoInfo u, Fetch v (videoRequestHeaders req)])"
    by (simp add: part_001_relay [OF assms(1-3) i assms(4)] part_001_media_def truthy_def run_defs
        new_Response_relay [OF ok])
next
  fix v assume "getVideoUrl w u = Inr v"
  then show "part_000_handler w req =
             (Inr \<lparr>status = 200, statusText = '''',
                   headers = Headers_set part_000_createCorsHeaders ''Content-Type''
                               ''text/plain; charset=utf-8'',
                   body = Some (Text v)\<rparr>,
              [GetVideoUrl u])"
    by (simp add: part_000_url [OF assms])
qed (simp_all add: responseHeaders_get)

theorem media_relay_response_witness:
  "serve_handler (demo_world (Inr demo_video) (Inr demo_media) (Inr demo_full))
     (demo_request ''GET'' [(''url'', demo_share)] []) =
     (Inr \<lparr>status = 200, statusText = '''', headers = responseHeaders demo_full,
           body = Some (ReadableStream ''all bytes'')\<rparr>,
      [GetVideoUrl demo_share,
       Fetch demo_media (videoRequestHeaders (demo_request ''GET'' [(''url'', demo_share)] []))])
 \<and> part_001_handler (demo_world (Inr demo_video) (Inr demo_media) (Inr demo_full))
     (demo_request ''GET'' [(''url'', demo_share)] []) =
     (Inr \<lparr>status = 200, statusText = '''', headers = responseHeaders demo_full,
           body = Some (ReadableStream ''all bytes'')\<rparr>,
      [GetVideoInfo demo_share,
       Fetch demo_media (videoRequestHeaders (demo_request ''GET'' [(''url'', demo_share)] []))])
 \<and> Headers_get (responseHeaders demo_full) ''Content-Type'' = Some ''video/mp4''
 \<and> Headers_get (responseHeaders demo_full) ''Content-Length'' = Some ''5000''
 \<and> Headers_get (responseHeaders demo_full) ''Accept-Ranges'' = Some ''bytes''
 \<and> part_000_handler (demo_world (Inr demo_video) (Inr demo_media) (Inr demo_full))
     (demo_request ''GET'' [(''url'', demo_share)] []) =
     (Inr \<lparr>status = 200, statusText = '''',
           headers = Headers_set part_000_createCorsHeaders ''Content-Type''
                       ''text/plain; charset=utf-8'',
           body = Some (Text demo_media)\<rparr>,
      [GetVideoUrl demo_share])"
proof -
  let ?w = "demo_world (Inr demo_video) (Inr demo_media) (Inr demo_full)"
  let ?r = "demo_request ''GET'' [(''url'', demo_share)] []"
  have r: "req_method ?r \<noteq> ''OPTIONS''" "searchParams_get (searchParams ?r) ''url'' = Some demo_share"
    "demo_share \<noteq> ''''" "\<not> searchParams_has (searchParams ?r) ''data''"
    by (simp_all add: demo_defs params_defs)
  have w: "getVideoUrl ?w demo_share = Inr demo_media" "getVideoInfo ?w demo_share = Inr demo_video"
    "fetch ?w demo_media (videoRequestHeaders ?r) = Inr demo_full" "demo_media \<noteq> ''''"
    "type demo_video = ''video''" "video_url demo_video = Some demo_media"
    "status demo_full = 200" "body demo_full = Some (ReadableStream ''all bytes'')"
    "or_else (Headers_get (headers demo_full) ''Content-Type'') ''video/mp4'' = ''video/mp4''"
    "or_else (Headers_get (headers demo_full) ''Content-Length'') ''0'' = ''5000''"
    by (simp_all add: demo_world_def demo_video_def demo_media_def demo_full_def
        demo_upstream_def Headers_get_def byte_lowercase_names or_else_def)
  from media_relay_response [OF r, of ?w] w show ?thesis by simp
qed

theorem media_relay_part_000_counterexample:
  "sent_body (part_000_handler (demo_world (Inr demo_video) (Inr demo_media) (Inr demo_full))
      (demo_request ''GET'' [(''url'', demo_share)] [])) = Some (Text demo_media)
 \<and> sent_header (part_000_handler (demo_world (Inr demo_video) (Inr demo_media) (Inr demo_full))
      (demo_request ''GET'' [(''url'', demo_share)] [])) ''Content-Type'' =
      Some ''text/plain; charset=utf-8''
 \<and> sent_header (part_000_handler (demo_world (Inr demo_video) (Inr demo_media) (Inr demo_full))
      (demo_request ''GET'' [(''url'', demo_share)] [])) ''Accept-Ranges'' = None
 \<and> snd (part_000_handler (demo_world (Inr demo_video) (Inr demo_media) (Inr demo_full))
      (demo_request ''GET'' [(''url'', demo_share)] [])) = [GetVideoUrl demo_share]
 \<and> Headers_get (headers (demo_upstream 200 [(''content-type'', '''')]
        (Some (ReadableStream ''all bytes'')))) ''Content-Type'' = Some ''''
 \<and> sent_header
      (serve_handler
         (demo_world (Inr demo_video) (Inr demo_media)
            (Inr (demo_upstream 200 [(''content-type'', '''')] (Some (ReadableStream ''all bytes'')))))
         (demo_request ''GET'' [(''url'', demo_share)] [])) ''Content-Type'' = Some ''video/mp4''"
proof -
  let ?w = "demo_world (Inr demo_video) (Inr demo_media) (Inr demo_full)"
  let ?up = "demo_upstream 200 [(''content-type'', '''')] (Some (ReadableStream ''all bytes''))"
  let ?r = "demo_request ''GET'' [(''url'', demo_share)] []"
  have up: "getVideoUrl (demo_world (Inr demo_video) (Inr demo_media) (Inr ?up)) demo_share =
              Inr demo_media" "demo_media \<noteq> ''''"
    "fetch (demo_world (Inr demo_video) (Inr demo_media) (Inr ?up)) demo_media
       (videoRequestHeaders ?r) = Inr ?up"
    "ok ?up" "\<not> null_body_status (status ?up)" "body ?up = Some (ReadableStream ''all bytes'')"
    by (simp_all add: demo_world_def demo_media_def demo_upstream_def ok_def null_body_status_def)
  have e: "Headers_get (headers ?up) ''Content-Type'' = Some ''''"
    by (simp add: demo_upstream_def Headers_get_def byte_lowercase_names)
  have "sent_header (serve_handler (demo_world (Inr demo_video) (Inr demo_media) (Inr ?up)) ?r)
          ''Content-Type'' = Some ''video/mp4''"
    by (simp add: serve_relay [OF demo_relay_request up] sent_defs responseHeaders_get e or_else_def)
  with e show ?thesis
    by (simp add: part_000_url [OF demo_relay_request] demo_world_def sent_defs Content_Type_set
        part_000_createCorsHeaders_def Headers_defs)
qed

text \<open>
  C4. As stated the claim fails for \<open>serve.ts\<close>, which never looks at the content type: it
  asks \<open>getVideoUrl\<close> for a URL and relays it, whatever kind of post the link names. Amended:
  in \<open>part_001\<close>, a media-relay request whose resolved record has type \<open>img\<close> gets status 400
  with a text that points to the \<open>data\<close> interface, and the only call made is the one of
  \<open>getVideoInfo\<close>: no upstream fetch. In \<open>serve.ts\<close> a media-relay request never gets a
  400-class status: the response is a 500 or carries an upstream status from 200 to 299.
\<close>

theorem gallery_rejected:
  assumes "req_method req \<noteq> ''OPTIONS''"
    and "searchParams_get (searchParams req) ''url'' = Some u" and "u \<noteq> ''''"
    and "\<not> searchParams_has (searchParams req) ''data''"
  shows "(\<forall>d. getVideoInfo w u = Inr d \<and> type d = ''img'' \<longrightarrow>
           part_001_handler w req =
             (Inr \<lparr>status = 400, statusText = '''',
                   headers = Headers_set createCorsHeaders ''Content-Type''
                               ''text/plain;charset=UTF-8'',
                   body = Some (Text msg_gallery)\<rparr>,
              [GetVideoInfo u]))
     \<and> (\<exists>s. sent_status (serve_handler w req) = Some s \<and> (s = 500 \<or> 200 \<le> s \<and> s \<le> 299))"
proof (intro conjI allI impI)
  fix d assume "getVideoInfo w u = Inr d \<and> type d = ''img''"
  then show "part_001_handler w req =
             (Inr \<lparr>status = 400, statusText = '''',
                   headers = Headers_set createCorsHeaders ''Content-Type''
                               ''text/plain;charset=UTF-8'',
                   body = Some (Text msg_gallery)\<rparr>,
              [GetVideoInfo u])"
    using part_001_gallery [OF assms] by simp
next
  let ?s = "\<lparr>corsHeaders = createCorsHeaders, calls = []\<rparr>"
  obtain x s where x: "serve_try_proxy w req u ?s = (x, s)"
    by (cases "serve_try_proxy w req u ?s")
  show "\<exists>s. sent_status (serve_handler w req) = Some s \<and> (s = 500 \<or> 200 \<le> s \<and> s \<le> 299)"
  proof (cases x)
    case (Inl e)
    with x show ?thesis by (simp add: serve_proxy [OF assms] sent_defs)
  next
    case (Inr r)
    with x have "fst (serve_try_proxy w req u ?s) = Inr r" by simp
    from serve_try_proxy_status [OF this] x Inr show ?thesis
      by (simp add: serve_proxy [OF assms] sent_defs)
  qed
qed

theorem gallery_rejected_witness:
  "part_001_handler (demo_world (Inr demo_gallery) (Inl (Error ''no video'')) (Inr demo_full))
     (demo_request ''GET'' [(''url'', demo_share)] []) =
     (Inr \<lparr>status = 400, statusText = '''',
           headers = Headers_set createCorsHeaders ''Content-Type'' ''text/plain;charset=UTF-8'',
           body = Some (Text msg_gallery)\<rparr>,
      [GetVideoInfo demo_share])"
proof -
  have "getVideoInfo (demo_world (Inr demo_gallery) (Inl (Error ''no video'')) (Inr demo_full))
          demo_share = Inr demo_gallery" "type demo_gallery = ''img''"
    by (simp_all add: demo_world_def demo_gallery_def)
  with gallery_rejected [OF demo_relay_request,
      where w = "demo_world (Inr demo_gallery) (Inl (Error ''no video'')) (Inr demo_full)"]
  show ?thesis by simp
qed

theorem gallery_serve_counterexample:
  "getVideoInfo (demo_world (Inr demo_gallery) (Inl (Error ''no video'')) (Inr demo_full))
     demo_share = Inr demo_gallery
 \<and> type demo_gallery = ''img''
 \<and> sent_status
     (serve_handler (demo_world (Inr demo_gallery) (Inl (Error ''no video'')) (Inr demo_full))
        (demo_request ''GET'' [(''url'', demo_share)] [])) = Some 500
 \<and> serve_handler (demo_world (Inr demo_gallery) (Inr demo_media) (Inr demo_full))
     (demo_request ''GET'' [(''url'', demo_share)] []) =
     (Inr \<lparr>status = 200, statusText = '''', headers = responseHeaders demo_full,
           body = Some (ReadableStream ''all bytes'')\<rparr>,
      [GetVideoUrl demo_share,
       Fetch demo_media (videoRequestHeaders (demo_request ''GET'' [(''url'', demo_share)] []))])"
proof -
  let ?r = "demo_request ''GET'' [(''url'', demo_share)] []"
  have a: "getVideoUrl (demo_world (Inr demo_gallery) (Inl (Error ''no video'')) (Inr demo_full))
             demo_share = Inl (Error ''no video'')
         \<or> getVideoUrl (demo_world (Inr demo_gallery) (Inl (Error ''no video'')) (Inr demo_full))
             demo_share = Inr ''''"
    by (simp add: demo_world_def)
  have b: "getVideoUrl (demo_world (Inr demo_gallery) (Inr demo_media) (Inr demo_full)) demo_share =
             Inr demo_media" "demo_media \<noteq> ''''"
    "fetch (demo_world (Inr demo_gallery) (Inr demo_media) (Inr demo_full)) demo_media
       (videoRequestHeaders ?r) = Inr demo_full"
    "ok demo_full" "\<not> null_body_status (status demo_full)"
    "body demo_full = Some (ReadableStream ''all bytes'')"
    by (simp_all add: demo_world_def demo_media_def demo_full_def demo_upstream_def ok_def
        null_body_status_def)
  have c: "status demo_full = 200" by (simp add: demo_full_def demo_upstream_def)
  show ?thesis
    by (simp add: serve_resolver_fails [OF demo_relay_request a] serve_relay [OF demo_relay_request b]
        sent_defs c)
      (simp add: demo_world_def demo_gallery_def)
qed

text \<open>
  C5. A request whose method is not \<open>OPTIONS\<close> and whose \<open>url\<close> parameter is absent (or
  present and empty) gets status 400 and the text \<open>Missing 'url' parameter.\<close> with a
  \<open>text/plain\<close> content type, in all three files, and no call is made: neither resolver
  function, nor \<open>fetch\<close>. \<open>serve.ts\<close> and \<open>part_000\<close> set
  \<open>text/plain; charset=utf-8\<close>; \<open>part_001\<close> sets no content type, and the \<open>Response\<close>
  constructor gives the string body \<open>text/plain;charset=UTF-8\<close>.
\<close>

theorem missing_url:
  assumes "req_method req \<noteq> ''OPTIONS''"
    and "searchParams_get (searchParams req) ''url'' = None
       \<or> searchParams_get (searchParams req) ''url'' = Some ''''"
  shows "serve_handler w req =
           (Inr \<lparr>status = 400, statusText = '''',
                 headers = Headers_set createCorsHeaders ''Content-Type'' ''text/plain; charset=utf-8'',
                 body = Some (Text ''Missing 'url' parameter.'')\<rparr>, [])
     \<and> part_001_handler w req =
           (Inr \<lparr>status = 400, statusText = '''',
                 headers = Headers_set createCorsHeaders ''Content-Type'' ''text/plain;charset=UTF-8'',
                 body = Some (Text ''Missing 'url' parameter.'')\<rparr>, [])
     \<and> part_000_handler w req =
           (Inr \<lparr>status = 400, statusText = '''',
                 headers = Headers_set part_000_createCorsHeaders ''Content-Type''
                             ''text/plain; charset=utf-8'',
                 body = Some (Text ''Missing 'url' parameter.'')\<rparr>, [])"
proof -
  from assms(2) have "\<not> truthy (searchParams_get (searchParams req) ''url'')"
    by (auto simp add: truthy_def)
  with assms(1) show ?thesis
    by (simp add: serve_missing part_001_missing part_000_missing)
qed

theorem missing_url_witness:
  "sent_status (serve_handler (demo_world (Inr demo_video) (Inr demo_media) (Inr demo_full))
      (demo_request ''GET'' [(''data'', ''1'')] [])) = Some 400
 \<and> sent_header (serve_handler (demo_world (Inr demo_video) (Inr demo_media) (Inr demo_full))
      (demo_request ''GET'' [(''data'', ''1'')] [])) ''Content-Type'' =
      Some ''text/plain; charset=utf-8''
 \<and> snd (serve_handler (demo_world (Inr demo_video) (Inr demo_media) (Inr demo_full))
      (demo_request ''GET'' [(''data'', ''1'')] [])) = []
 \<and> sent_status (part_001_handler (demo_world (Inr demo_video) (Inr demo_media) (Inr demo_full))
      (demo_request ''GET'' [(''data'', ''1'')] [])) = Some 400
 \<and> sent_header (part_001_handler (demo_world (Inr demo_video) (Inr demo_media) (Inr demo_full))
      (demo_request ''GET'' [(''data'', ''1'')] [])) ''Content-Type'' =
      Some ''text/plain;charset=UTF-8''
 \<and> snd (part_001_handler (demo_world (Inr demo_video) (Inr demo_media) (Inr demo_full))
      (demo_request ''GET'' [(''data'', ''1'')] [])) = []"
proof -
  let ?r = "demo_request ''GET'' [(''data'', ''1'')] []"
  have r: "req_method ?r \<noteq> ''OPTIONS''"
    "searchParams_get (searchParams ?r) ''url'' = None
       \<or> searchParams_get (searchParams ?r) ''url'' = Some ''''"
    by (simp_all add: demo_request_def params_defs)
  from missing_url [OF r, of "demo_world (Inr demo_video) (Inr demo_media) (Inr demo_full)"]
  show ?thesis by (simp add: sent_defs Content_Type_set)
qed

text \<open>
  C6. As stated the claim fails: the handlers test \<open>videoResponse.ok\<close>, which holds for every
  status from 200 to 299, so an upstream 203 with a body is relayed with status 203 and
  its body. Amended: for a media-relay request that resolves to a video, in \<open>serve.ts\<close> and
  \<open>part_001\<close>: when the upstream's status is outside 200 to 299, or its body is absent, the
  response has status 500 and a fixed text as its body; the upstream's status (404, say) and
  body are not passed on.
\<close>

theorem upstream_failure:
  assumes "req_method req \<noteq> ''OPTIONS''"
    and "searchParams_get (searchParams req) ''url'' = Some u" and "u \<noteq> ''''"
    and "\<not> searchParams_has (searchParams req) ''data''"
  shows "(\<forall>v up. getVideoUrl w u = Inr v \<and> v \<noteq> ''''
            \<and> fetch w v (videoRequestHeaders req) = Inr up
            \<and> (status up < 200 \<or> 299 < status up \<or> body up = None) \<longrightarrow>
           serve_handler w req =
             (Inr \<lparr>status = 500, statusText = '''',
                   headers = Headers_set createCorsHeaders ''Content-Type''
                               ''text/plain;charset=UTF-8'',
                   body = Some (Text ''An internal server error occurred while proxying video.'')\<rparr>,
              [GetVideoUrl u, Fetch v (videoRequestHeaders req)]))
     \<and> (\<forall>d v up. getVideoInfo w u = Inr d \<and> type d = ''video'' \<and> video_url d = Some v
            \<and> v \<noteq> '''' \<and> fetch w v (videoRequestHeaders req) = Inr up
            \<and> (status up < 200 \<or> 299 < status up \<or> body up = None) \<longrightarrow>
           part_001_handler w req =
             (Inr \<lparr>status = 500, statusText = '''',
                   headers = Headers_set createCorsHeaders ''Content-Type''
                               ''text/plain;charset=UTF-8'',
                   body = Some (Text msg_internal)\<rparr>,
              [GetVideoInfo u, Fetch v (videoRequestHeaders req)]))"
proof (intro conjI allI impI)
  fix v up
  assume a: "getVideoUrl w u = Inr v \<and> v \<noteq> '''' \<and> fetch w v (videoRequestHeaders req) = Inr up
            \<and> (status up < 200 \<or> 299 < status up \<or> body up = None)"
  then have "\<not> ok up \<or> body up = None" by (auto simp add: ok_def)
  with a show "serve_handler w req =
             (Inr \<lparr>status = 500, statusText = '''',
                   headers = Headers_set createCorsHeaders ''Content-Type''
                               ''text/plain;charset=UTF-8'',
                   body = Some (Text ''An internal server error occurred while proxying video.'')\<rparr>,
              [GetVideoUrl u, Fetch v (videoRequestHeaders req)])"
    by (intro serve_upstream_fails [OF assms]) blast+
next
  fix d v up
  assume a: "getVideoInfo w u = Inr d \<and> type d = ''video'' \<and> video_url d = Some v
            \<and> v \<noteq> '''' \<and> fetch w v (videoRequestHeaders req) = Inr up
            \<and> (status up < 200 \<or> 299 < status up \<or> body up = None)"
  then have "\<not> ok up \<or> body up = None" by (auto simp add: ok_def)
  with a show "part_001_handler w req =
             (Inr \<lparr>status = 500, statusText = '''',
                   headers = Headers_set createCorsHeaders ''Content-Type''
                               ''text/plain;charset=UTF-8'',
                   body = Some (Text msg_internal)\<rparr>,
              [GetVideoInfo u, Fetch v (videoRequestHeaders req)])"
    by (intro part_001_upstream_fails [OF assms]) blast+
qed

theorem upstream_failure_witness:
  "serve_handler
     (demo_world (Inr demo_video) (Inr demo_media)
        (Inr (demo_upstream 404 [] (Some (ReadableStream ''not found'')))))
     (demo_request ''GET'' [(''url'', demo_share)] []) =
     (Inr \<lparr>status = 500, statusText = '''',
           headers = Headers_set createCorsHeaders ''Content-Type'' ''text/plain;charset=UTF-8'',
           body = Some (Text ''An internal server error occurred while proxying video.'')\<rparr>,
      [GetVideoUrl demo_share,
       Fetch demo_media (videoRequestHeaders (demo_request ''GET'' [(''url'', demo_share)] []))])
 \<and> part_001_handler
     (demo_world (Inr demo_video) (Inr demo_media)
        (Inr (demo_upstream 404 [] (Some (ReadableStream ''not found'')))))
     (demo_request ''GET'' [(''url'', demo_share)] []) =
     (Inr \<lparr>status = 500, statusText = '''',
           headers = Headers_set createCorsHeaders ''Content-Type'' ''text/plain;charset=UTF-8'',
           body = Some (Text msg_internal)\<rparr>,
      [GetVideoInfo demo_share,
       Fetch demo_media (videoRequestHeaders (demo_request ''GET'' [(''url'', demo_share)] []))])"
proof -
  let ?up = "demo_upstream 404 [] (Some (ReadableStream ''not found''))"
  let ?w = "demo_world (Inr demo_video) (Inr demo_media) (Inr ?up)"
  let ?r = "demo_request ''GET'' [(''url'', demo_share)] []"
  have w: "getVideoUrl ?w demo_share = Inr demo_media" "getVideoInfo ?w demo_share = Inr demo_video"
    "fetch ?w demo_media (videoRequestHeaders ?r) = Inr ?up" "demo_media \<noteq> ''''"
    "type demo_video = ''video''" "video_url demo_video = Some demo_media"
    "299 < status ?up"
    by (simp_all add: demo_world_def demo_video_def demo_media_def demo_upstream_def)
  from upstream_failure [OF demo_relay_request, where w = ?w] w show ?thesis by simp
qed

theorem upstream_203_counterexample:
  "serve_handler
     (demo_world (Inr demo_video) (Inr demo_media)
        (Inr (demo_upstream 203 [] (Some (ReadableStream ''all bytes'')))))
     (demo_request ''GET'' [(''url'', demo_share)] []) =
     (Inr \<lparr>status = 203, statusText = '''',
           headers = responseHeaders (demo_upstream 203 [] (Some (ReadableStream ''all bytes''))),
           body = Some (ReadableStream ''all bytes'')\<rparr>,
      [GetVideoUrl demo_share,
       Fetch demo_media (videoRequestHeaders (demo_request ''GET'' [(''url'', demo_share)] []))])
 \<and> part_001_handler
     (demo_world (Inr demo_video) (Inr demo_media)
        (Inr (demo_upstream 203 [] (Some (ReadableStream ''all bytes'')))))
     (demo_request ''GET'' [(''url'', demo_share)] []) =
     (Inr \<lparr>status = 203, statusText = '''',
           headers = responseHeaders (demo_upstream 203 [] (Some (ReadableStream ''all bytes''))),
           body = Some (ReadableStream ''all bytes'')\<rparr>,
      [GetVideoInfo demo_share,
       Fetch demo_media (videoRequestHeaders (demo_request ''GET'' [(''url'', demo_share)] []))])"
proof -
  let ?up = "demo_upstream 203 [] (Some (ReadableStream ''all bytes''))"
  let ?w = "demo_world (Inr demo_video) (Inr demo_media) (Inr ?up)"
  let ?r = "demo_request ''GET'' [(''url'', demo_share)] []"
  have u: "getVideoUrl ?w demo_share = Inr demo_media" "demo_media \<noteq> ''''"
    "fetch ?w demo_media (videoRequestHeaders ?r) = Inr ?up"
    "ok ?up" "\<not> null_body_status (status ?up)" "body ?up = Some (ReadableStream ''all bytes'')"
    by (simp_all add: demo_world_def demo_media_def demo_upstream_def ok_def null_body_status_def)
  have i: "getVideoInfo ?w demo_share = Inr demo_video" "type demo_video = ''video''"
    "video_url demo_video = Some demo_media"
    by (simp_all add: demo_world_def demo_video_def)
  have s: "status ?up = 203" by (simp add: demo_upstream_def)
  show ?thesis
    by (simp add: serve_relay [OF demo_relay_request u]
        part_001_relay_ok [OF demo_relay_request i u(2-)] s)
qed

text \<open>
  C7. A request whose method is not \<open>OPTIONS\<close>, with a \<open>url\<close> parameter that is not empty and
  with a \<open>data\<close> parameter, in all three files: when \<open>getVideoInfo\<close> succeeds, the response has
  status 200, content type \<open>application/json; charset=utf-8\<close>, and \<open>JSON.stringify\<close> of the
  resolver's record as its body, whatever the record's type; when \<open>getVideoInfo\<close> fails, the
  response has status 500 and a fixed text as its body. Either way \<open>getVideoInfo\<close> is the only
  call made.
\<close>

theorem metadata_json:
  assumes "req_method req \<noteq> ''OPTIONS''"
    and "searchParams_get (searchParams req) ''url'' = Some u" and "u \<noteq> ''''"
    and "searchParams_has (searchParams req) ''data''"
  shows "(\<forall>d. getVideoInfo w u = Inr d \<longrightarrow>
           serve_handler w req =
             (Inr \<lparr>status = 200, statusText = '''',
                   headers = Headers_set createCorsHeaders ''Content-Type''
                               ''application/json; charset=utf-8'',
                   body = Some (Text (JSON_stringify w d))\<rparr>, [GetVideoInfo u])
         \<and> part_001_handler w req =
             (Inr \<lparr>status = 200, statusText = '''',
                   headers = Headers_set createCorsHeaders ''Content-Type''
                               ''application/json; charset=utf-8'',
                   body = Some (Text (JSON_stringify w d))\<rparr>, [GetVideoInfo u])
         \<and> part_000_handler w req =
             (Inr \<lparr>status = 200, statusText = '''',
                   headers = Headers_set part_000_createCorsHeaders ''Content-Type''
                               ''application/json; charset=utf-8'',
                   body = Some (Text (JSON_stringify w d))\<rparr>, [GetVideoInfo u]))
     \<and> (\<forall>e. getVideoInfo w u = Inl e \<longrightarrow>
           serve_handler w req =
             (Inr \<lparr>status = 500, statusText = '''',
                   headers = Headers_set createCorsHeaders ''Content-Type''
                               ''text/plain;charset=UTF-8'',
                   body = Some (Text ''Error fetching video info.'')\<rparr>, [GetVideoInfo u])
         \<and> part_001_handler w req =
             (Inr \<lparr>status = 500, statusText = '''',
                   headers = Headers_set createCorsHeaders ''Content-Type''
                               ''text/plain;charset=UTF-8'',
                   body = Some (Text msg_internal)\<rparr>, [GetVideoInfo u])
         \<and> part_000_handler w req =
             (Inr \<lparr>status = 500, statusText = '''',
                   headers = Headers_set part_000_createCorsHeaders ''Content-Type''
                               ''text/plain; charset=utf-8'',
                   body = Some (Text ''An internal server error occurred.'')\<rparr>, [GetVideoInfo u]))"
proof (intro conjI allI impI)
  fix d assume d: "getVideoInfo w u = Inr d"
  then show "serve_handler w req =
             (Inr \<lparr>status = 200, statusText = '''',
                   headers = Headers_set createCorsHeaders ''Content-Type''
                               ''application/json; charset=utf-8'',
                   body = Some (Text (JSON_stringify w d))\<rparr>, [GetVideoInfo u])"
    by (simp add: serve_data [OF assms])
  show "part_001_handler w req =
             (Inr \<lparr>status = 200, statusText = '''',
                   headers = Headers_set createCorsHeaders ''Content-Type''
                               ''application/json; charset=utf-8'',
                   body = Some (Text (JSON_stringify w d))\<rparr>, [GetVideoInfo u])"
    by (rule part_001_data [OF assms(1-3) d assms(4)])
  from d show "part_000_handler w req =
             (Inr \<lparr>status = 200, statusText = '''',
                   headers = Headers_set part_000_createCorsHeaders ''Content-Type''
                               ''application/json; charset=utf-8'',
                   body = Some (Text (JSON_stringify w d))\<rparr>, [GetVideoInfo u])"
    by (simp add: part_000_data [OF assms])
next
  fix e assume e: "getVideoInfo w u = Inl e"
  then show "serve_handler w req =
             (Inr \<lparr>status = 500, statusText = '''',
                   headers = Headers_set createCorsHeaders ''Content-Type''
                               ''text/plain;charset=UTF-8'',
                   body = Some (Text ''Error fetching video info.'')\<rparr>, [GetVideoInfo u])"
    by (simp add: serve_data [OF assms])
  show "part_001_handler w req =
             (Inr \<lparr>status = 500, statusText = '''',
                   headers = Headers_set createCorsHeaders ''Content-Type''
                               ''text/plain;charset=UTF-8'',
                   body = Some (Text msg_internal)\<rparr>, [GetVideoInfo u])"
    by (rule part_001_resolver_fails [OF assms(1-3) e])
  from e show "part_000_handler w req =
             (Inr \<lparr>status = 500, statusText = '''',
                   headers = Headers_set part_000_createCorsHeaders ''Content-Type''
                               ''text/plain; charset=utf-8'',
                   body = Some (Text ''An internal server error occurred.'')\<rparr>, [GetVideoInfo u])"
    by (simp add: part_000_data [OF assms])
qed

theorem metadata_json_witness:
  "sent_status (serve_handler (demo_world (Inr demo_gallery) (Inr demo_media) (Inr demo_full))
      (demo_request ''GET'' [(''url'', demo_share), (''data'', ''true'')] [])) = Some 200
 \<and> sent_header (serve_handler (demo_world (Inr demo_gallery) (Inr demo_media) (Inr demo_full))
      (demo_request ''GET'' [(''url'', demo_share), (''data'', ''true'')] [])) ''Content-Type'' =
      Some ''application/json; charset=utf-8''
 \<and> sent_body (part_001_handler (demo_world (Inr demo_gallery) (Inr demo_media) (Inr demo_full))
      (demo_request ''GET'' [(''url'', demo_share), (''data'', ''true'')] [])) =
      Some (Text (demo_stringify demo_gallery))
 \<and> sent_status (serve_handler (demo_world (Inl (Error ''gone'')) (Inr demo_media) (Inr demo_full))
      (demo_request ''GET'' [(''url'', demo_share), (''data'', ''true'')] [])) = Some 500
 \<and> sent_body (serve_handler (demo_world (Inl (Error ''gone'')) (Inr demo_media) (Inr demo_full))
      (demo_request ''GET'' [(''url'', demo_share), (''data'', ''true'')] [])) =
      Some (Text ''Error fetching video info.'')"
proof -
  let ?r = "demo_request ''GET'' [(''url'', demo_share), (''data'', ''true'')] []"
  let ?w = "demo_world (Inr demo_gallery) (Inr demo_media) (Inr demo_full)"
  let ?f = "demo_world (Inl (Error ''gone'')) (Inr demo_media) (Inr demo_full)"
  have r: "req_method ?r \<noteq> ''OPTIONS''" "searchParams_get (searchParams ?r) ''url'' = Some demo_share"
    "demo_share \<noteq> ''''" "searchParams_has (searchParams ?r) ''data''"
    by (simp_all add: demo_request_def demo_share_def params_defs)
  have w: "getVideoInfo ?w demo_share = Inr demo_gallery" "JSON_stringify ?w = demo_stringify"
    "getVideoInfo ?f demo_share = Inl (Error ''gone'')"
    by (simp_all add: demo_world_def)
  from metadata_json [OF r, where w = ?w] metadata_json [OF r, where w = ?f] w
  show ?thesis by (simp add: sent_defs Content_Type_set)
qed

text \<open>
  C8. Every upstream fetch that \<open>serve.ts\<close> or \<open>part_001\<close> makes carries the header
  \<open>Referer: https://www.douyin.com/\<close> and the \<open>User-Agent\<close> of a desktop Chrome browser.
\<close>

theorem upstream_identity:
  assumes "Fetch v h \<in> set (snd (serve_handler w req))
         \<or> Fetch v h \<in> set (snd (part_001_handler w req))"
  shows "Headers_get h ''Referer'' = Some ''https://www.douyin.com/''
     \<and> Headers_get h ''User-Agent'' =
         Some ''Mozilla/5.0 (Windows NT 10.0; Win64; x64) AppleWebKit/537.36 (KHTML, like Gecko) Chrome/107.0.0.0 Safari/537.36''"
proof -
  from assms have "h = videoRequestHeaders req"
    using serve_fetches part_001_fetches by blast
  then show ?thesis by (simp add: videoRequestHeaders_get)
qed

theorem upstream_identity_witness:
  "Fetch demo_media (videoRequestHeaders (demo_request ''GET'' [(''url'', demo_share)] []))
     \<in> set (snd (serve_handler (demo_world (Inr demo_video) (Inr demo_media) (Inr demo_full))
                 (demo_request ''GET'' [(''url'', demo_share)] [])))
 \<and> Headers_get (videoRequestHeaders (demo_request ''GET'' [(''url'', demo_share)] [])) ''Referer'' =
      Some ''https://www.douyin.com/''
 \<and> Headers_get (videoRequestHeaders (demo_request ''GET'' [(''url'', demo_share)] []))
      ''User-Agent'' =
      Some ''Mozilla/5.0 (Windows NT 10.0; Win64; x64) AppleWebKit/537.36 (KHTML, like Gecko) Chrome/107.0.0.0 Safari/537.36''"
proof -
  let ?w = "demo_world (Inr demo_video) (Inr demo_media) (Inr demo_full)"
  let ?r = "demo_request ''GET'' [(''url'', demo_share)] []"
  have u: "getVideoUrl ?w demo_share = Inr demo_media" "demo_media \<noteq> ''''"
    "fetch ?w demo_media (videoRequestHeaders ?r) = Inr demo_full"
    "ok demo_full" "\<not> null_body_status (status demo_full)"
    "body demo_full = Some (ReadableStream ''all bytes'')"
    by (simp_all add: demo_world_def demo_media_def demo_full_def demo_upstream_def ok_def
        null_body_status_def)
  have f: "Fetch demo_media (videoRequestHeaders ?r) \<in> set (snd (serve_handler ?w ?r))"
    by (simp add: serve_relay [OF demo_relay_request u])
  then have "Fetch demo_media (videoRequestHeaders ?r) \<in> set (snd (serve_handler ?w ?r))
           \<or> Fetch demo_media (videoRequestHeaders ?r) \<in> set (snd (part_001_handler ?w ?r))"
    by (rule disjI1)
  from upstream_identity [OF this] f show ?thesis by simp
qed

text \<open>
  C9. A request whose method is \<open>OPTIONS\<close> gets, in \<open>serve.ts\<close> and in \<open>part_001\<close>, status 204,
  no body, and exactly the headers of \<open>createCorsHeaders\<close> (the four CORS headers and no
  other). The answer depends on nothing but the method: not on the query parameters (the
  \<open>url\<close> parameter may be absent), and no resolver function and no \<open>fetch\<close> is called.
\<close>

theorem options_preflight:
  assumes "req_method req = ''OPTIONS''"
  shows "serve_handler w req =
           (Inr \<lparr>status = 204, statusText = '''', headers = createCorsHeaders, body = None\<rparr>, [])
       \<and> part_001_handler w req =
           (Inr \<lparr>status = 204, statusText = '''', headers = createCorsHeaders, body = None\<rparr>, [])
       \<and> dom createCorsHeaders =
           {''access-control-allow-origin'', ''access-control-allow-methods'',
            ''access-control-allow-headers'', ''access-control-expose-headers''}"
  using assms
  by (auto simp add: serve_options part_001_options createCorsHeaders_def Headers_set_def
      new_Headers_def byte_lowercase_names)

theorem options_preflight_witness:
  "serve_handler (demo_world (Inr demo_video) (Inr demo_media) (Inr demo_full))
     (demo_request ''OPTIONS'' [] []) =
     (Inr \<lparr>status = 204, statusText = '''', headers = createCorsHeaders, body = None\<rparr>, [])
 \<and> part_001_handler (demo_world (Inr demo_video) (Inr demo_media) (Inr demo_full))
     (demo_request ''OPTIONS'' [] []) =
     (Inr \<lparr>status = 204, statusText = '''', headers = createCorsHeaders, body = None\<rparr>, [])"
proof -
  have "req_method (demo_request ''OPTIONS'' [] []) = ''OPTIONS''"
    by (simp add: demo_request_def)
  from options_preflight [OF this] show ?thesis by simp
qed

text \<open>
  C10. In \<open>part_001\<close>, a media-relay request whose resolved record has type \<open>video\<close> and a
  \<open>video_url\<close> that is \<open>null\<close> or empty takes the last branch (unknown content): the response
  has status 500 and the fixed internal-error text, not the 400 of the gallery branch, and
  the only call made is the one of \<open>getVideoInfo\<close>: no upstream fetch.
\<close>

theorem video_without_url:
  assumes "req_method req \<noteq> ''OPTIONS''"
    and "searchParams_get (searchParams req) ''url'' = Some u" and "u \<noteq> ''''"
    and "\<not> searchParams_has (searchParams req) ''data''"
    and "getVideoInfo w u = Inr d" and "type d = ''video''"
    and "video_url d = None \<or> video_url d = Some ''''"
  shows "part_001_handler w req =
           (Inr \<lparr>status = 500, statusText = '''',
                 headers = Headers_set createCorsHeaders ''Content-Type''
                             ''text/plain;charset=UTF-8'',
                 body = Some (Text msg_internal)\<rparr>,
            [GetVideoInfo u])
       \<and> msg_internal \<noteq> msg_gallery"
proof -
  from assms(7) have "type d \<noteq> ''video'' \<or> \<not> truthy (video_url d)"
    by (auto simp add: truthy_def)
  moreover from assms(6) have "type d \<noteq> ''img''" by simp
  ultimately show ?thesis
    using part_001_unknown [OF assms(1-5)] by (simp add: msg_internal_def msg_gallery_def)
qed

theorem video_without_url_witness:
  "part_001_handler (demo_world (Inr demo_video_no_url) (Inr demo_media) (Inr demo_full))
     (demo_request ''GET'' [(''url'', demo_share)] []) =
     (Inr \<lparr>status = 500, statusText = '''',
           headers = Headers_set createCorsHeaders ''Content-Type'' ''text/plain;charset=UTF-8'',
           body = Some (Text msg_internal)\<rparr>,
      [GetVideoInfo demo_share])"
proof -
  have "getVideoInfo (demo_world (Inr demo_video_no_url) (Inr demo_media) (Inr demo_full))
          demo_share = Inr demo_video_no_url"
    "type demo_video_no_url = ''video''"
    "video_url demo_video_no_url = None \<or> video_url demo_video_no_url = Some ''''"
    by (simp_all add: demo_world_def demo_video_no_url_def)
  from video_without_url [OF demo_relay_request this] show ?thesis by simp
qed

end
